theory Spec2Isabelle
  imports Main "HOL-Library.Sublist"
begin

section \<open>Data model (src/lib/types.ts)\<close>

text \<open>
  A JavaScript string is modelled as a \<^typ>\<open>string\<close>, one \<^typ>\<open>char\<close> per code unit
  (code units 0 to 255).  An optional field \<open>f?: string\<close> is a \<^typ>\<open>string option\<close>:
  \<open>None\<close> stands for \<open>undefined\<close> (and for JSON \<open>null\<close>, which \<open>??\<close> and \<open>?.\<close> treat
  alike), \<open>Some ''''\<close> for the present but empty string.
\<close>

record Contact =
  c_name :: "string option"
  c_email :: "string option"
  c_phone :: "string option"
  c_location :: "string option"
  c_linkedin :: "string option"

record EducationEntry =
  ed_school :: "string option"
  ed_degree :: "string option"
  ed_dates :: "string option"
  ed_gpa :: "string option"
  ed_rawText :: "string option"

record ExperienceEntry =
  ex_company :: "string option"
  ex_role :: "string option"
  ex_location :: "string option"
  ex_dates :: "string option"
  ex_subheader :: "string option"
  ex_bullets :: "string list"

record ProjectEntry =
  pr_title :: "string option"
  pr_bullets :: "string list"

record ParsedResume =
  contact :: Contact
  education :: "EducationEntry list"
  experience :: "ExperienceEntry list"
  projects :: "ProjectEntry list"
  skills :: "string list"
  otherSections :: "(string \<times> string) list option"

text \<open>
  The entries of \<open>OptimizedSections\<close>.  The overlay is parsed from the JSON answer of the
  language model, and the code guards \<open>bullets\<close> with \<open>?? []\<close>, so the bullets of an
  overlay entry are optional here.
\<close>

record OptExperience =
  ox_company :: "string option"
  ox_role :: "string option"
  ox_subheader :: "string option"
  ox_bullets :: "string list option"

record OptProject =
  op_title :: "string option"
  op_bullets :: "string list option"

record OptimizedSections =
  o_experience :: "OptExperience list option"
  o_education :: "EducationEntry list option"
  o_projects :: "OptProject list option"
  o_skills :: "string list option"
  o_contact :: "Contact option"

section \<open>JavaScript operators\<close>

text \<open>\<open>a ?? b\<close>, for an optional \<open>b\<close> and for a default \<open>b\<close>.\<close>

fun orElse :: "'a option \<Rightarrow> 'a option \<Rightarrow> 'a option" where
  "orElse (Some a) b = Some a"
| "orElse None b = b"

fun orDefault :: "'a option \<Rightarrow> 'a \<Rightarrow> 'a" where
  "orDefault (Some a) d = a"
| "orDefault None d = d"

text \<open>\<open>xs[i]\<close> on an array: \<open>undefined\<close> out of range.\<close>

definition at :: "'a list \<Rightarrow> nat \<Rightarrow> 'a option" where
  "at xs i = (if i < length xs then Some (xs ! i) else None)"

text \<open>\<open>o?.f\<close> on an optional object \<open>o\<close> with an optional field \<open>f\<close>.\<close>

definition opt :: "'a option \<Rightarrow> ('a \<Rightarrow> 'b option) \<Rightarrow> 'b option" where
  "opt x f = (case x of None \<Rightarrow> None | Some a \<Rightarrow> f a)"

text \<open>\<open>xs?.length ? xs : ys\<close>: the overlay list when present and non-empty.\<close>

definition nonEmptyOr :: "'a list option \<Rightarrow> 'a list \<Rightarrow> 'a list" where
  "nonEmptyOr xs ys = (case xs of None \<Rightarrow> ys | Some l \<Rightarrow> if length l \<noteq> 0 then l else ys)"

text \<open>\<open>xs.map((e, idx) => f(e, idx))\<close>.\<close>

definition mapIdx :: "('a \<Rightarrow> nat \<Rightarrow> 'b) \<Rightarrow> 'a list \<Rightarrow> 'b list" where
  "mapIdx f xs = map (\<lambda>(e, idx). f e idx) (zip xs [0..<length xs])"

section \<open>mergeOptimizedIntoResume (src/app/api/optimize/route.ts)\<close>

definition mergeExperience :: "ParsedResume \<Rightarrow> OptExperience \<Rightarrow> nat \<Rightarrow> ExperienceEntry" where
  "mergeExperience parsed e idx =
     (let orig = at (experience parsed) idx in
      \<lparr> ex_company = ox_company e,
        ex_role = ox_role e,
        ex_location = opt orig ex_location,
        ex_dates = opt orig ex_dates,
        ex_subheader = orElse (ox_subheader e) (opt orig ex_subheader),
        ex_bullets = orDefault (ox_bullets e) [] \<rparr>)"

definition mergeProject :: "ParsedResume \<Rightarrow> OptProject \<Rightarrow> nat \<Rightarrow> ProjectEntry" where
  "mergeProject parsed p idx =
     \<lparr> pr_title = orElse (op_title p) (opt (at (projects parsed) idx) pr_title),
       pr_bullets = orDefault (op_bullets p) [] \<rparr>"

definition mergeOptimizedIntoResume :: "ParsedResume \<Rightarrow> OptimizedSections \<Rightarrow> ParsedResume" where
  "mergeOptimizedIntoResume parsed optimized =
     (let education' = nonEmptyOr (o_education optimized) (education parsed);
          experience' =
            (case o_experience optimized of
               None \<Rightarrow> experience parsed
             | Some es \<Rightarrow>
                 if length es \<noteq> 0 then mapIdx (mergeExperience parsed) es
                 else experience parsed);
          skills' = nonEmptyOr (o_skills optimized) (skills parsed);
          projects' =
            (case o_projects optimized of
               None \<Rightarrow> projects parsed
             | Some ps \<Rightarrow>
                 if length ps \<noteq> 0 then mapIdx (mergeProject parsed) ps
                 else projects parsed)
      in \<lparr> contact = orDefault (o_contact optimized) (contact parsed),
           education = education',
           experience = experience',
           projects = projects',
           skills = skills',
           otherSections = otherSections parsed \<rparr>)"

section \<open>buildTemplatePayload (lib/template-populate)\<close>

definition MAX_EDUCATION :: nat where "MAX_EDUCATION = 2"
definition MAX_EXPERIENCE :: nat where "MAX_EXPERIENCE = 3"
definition MAX_EXPERIENCE_BULLETS :: nat where "MAX_EXPERIENCE_BULLETS = 4"
definition MAX_PROJECTS :: nat where "MAX_PROJECTS = 2"
definition MAX_PROJECT_BULLETS :: nat where "MAX_PROJECT_BULLETS = 2"

text \<open>The decimal numeral that a template literal \<open>${i}\<close> prints for an index.\<close>

fun natToString :: "nat \<Rightarrow> string" where
  "natToString n =
     (if n < 10 then [''0123456789'' ! n]
      else natToString (n div 10) @ [''0123456789'' ! (n mod 10)])"

declare natToString.simps [simp del]

text \<open>\<open>xs.join(sep)\<close> on an array of strings.\<close>

fun join :: "string \<Rightarrow> string list \<Rightarrow> string" where
  "join sep [] = []"
| "join sep [x] = x"
| "join sep (x # y # ys) = x @ sep @ join sep (y # ys)"

text \<open>
  A \<open>Record<string, string>\<close> is the list of its entries in insertion order, which is the
  order \<open>Object.entries\<close> walks (no key here is an array index).  \<open>payload[k] = v\<close> overwrites
  the entry of an existing key in place and appends a new key.
\<close>

type_synonym payload = "(string \<times> string) list"

fun setKey :: "string \<Rightarrow> string \<Rightarrow> payload \<Rightarrow> payload" where
  "setKey k v [] = [(k, v)]"
| "setKey k v ((k', v') # ps) =
     (if k' = k then (k, v) # ps else (k', v') # setKey k v ps)"

definition setKeys :: "payload \<Rightarrow> payload \<Rightarrow> payload" where
  "setKeys kvs p = fold (\<lambda>(k, v). setKey k v) kvs p"

text \<open>
  \<open>optimized?.experience ?? parsed.experience\<close> is typed as the overlay's entries; an
  original entry read at that type shows its company, role, subheader and bullets.
\<close>

definition asOverlay :: "ExperienceEntry \<Rightarrow> OptExperience" where
  "asOverlay e =
     \<lparr> ox_company = ex_company e, ox_role = ex_role e,
       ox_subheader = ex_subheader e, ox_bullets = Some (ex_bullets e) \<rparr>"

text \<open>The body of the education loop at index \<open>i\<close>.\<close>

definition educationSlot :: "ParsedResume \<Rightarrow> EducationEntry list \<Rightarrow> nat \<Rightarrow> payload" where
  "educationSlot parsed education' i =
     (let e = orElse (at education' i) (at (education parsed) i) in
      [ (''education.'' @ natToString i @ ''.school'', orDefault (opt e ed_school) []),
        (''education.'' @ natToString i @ ''.degree'', orDefault (opt e ed_degree) []),
        (''education.'' @ natToString i @ ''.dates'', orDefault (opt e ed_dates) []),
        (''education.'' @ natToString i @ ''.gpa'', orDefault (opt e ed_gpa) []) ])"

text \<open>The bullets the experience loop reads at index \<open>i\<close>: \<open>opt?.bullets ?? orig?.bullets ?? []\<close>.\<close>

definition experienceBullets :: "ParsedResume \<Rightarrow> OptExperience list \<Rightarrow> nat \<Rightarrow> string list" where
  "experienceBullets parsed experience' i =
     orDefault
       (orElse (opt (at experience' i) ox_bullets)
          (map_option ex_bullets (at (experience parsed) i))) []"

text \<open>The body of the experience loop at index \<open>i\<close>.\<close>

definition experienceSlot :: "ParsedResume \<Rightarrow> OptExperience list \<Rightarrow> nat \<Rightarrow> payload" where
  "experienceSlot parsed experience' i =
     (let opt' = at experience' i;
          orig = at (experience parsed) i;
          bullets = experienceBullets parsed experience' i
      in
      [ (''experience.'' @ natToString i @ ''.company'',
           orDefault (orElse (opt opt' ox_company) (opt orig ex_company)) []),
        (''experience.'' @ natToString i @ ''.role'',
           orDefault (orElse (opt opt' ox_role) (opt orig ex_role)) []),
        (''experience.'' @ natToString i @ ''.location'', orDefault (opt orig ex_location) []),
        (''experience.'' @ natToString i @ ''.dates'', orDefault (opt orig ex_dates) []),
        (''experience.'' @ natToString i @ ''.subheader'',
           orDefault (orElse (opt opt' ox_subheader) (opt orig ex_subheader)) []) ]
      @ map (\<lambda>j. (''experience.'' @ natToString i @ ''.bullet.'' @ natToString j,
                   orDefault (at bullets j) []))
          [0..<MAX_EXPERIENCE_BULLETS])"

text \<open>The bullets the projects loop reads at index \<open>i\<close>: \<open>proj?.bullets ?? []\<close>.\<close>

definition projectBullets :: "ParsedResume \<Rightarrow> nat \<Rightarrow> string list" where
  "projectBullets parsed i = orDefault (map_option pr_bullets (at (projects parsed) i)) []"

text \<open>The body of the projects loop at index \<open>i\<close>.\<close>

definition projectSlot :: "ParsedResume \<Rightarrow> nat \<Rightarrow> payload" where
  "projectSlot parsed i =
     (let proj = at (projects parsed) i;
          bullets = projectBullets parsed i
      in
      (''projects.'' @ natToString i @ ''.title'', orDefault (opt proj pr_title) [])
      # map (\<lambda>j. (''projects.'' @ natToString i @ ''.bullet.'' @ natToString j,
                   orDefault (at bullets j) []))
          [0..<MAX_PROJECT_BULLETS])"

text \<open>
  The four constants at the head of the function: \<open>optimized?.section ?? parsed.section\<close>.
\<close>

definition payloadContact :: "ParsedResume \<Rightarrow> OptimizedSections option \<Rightarrow> Contact" where
  "payloadContact parsed optimized = orDefault (opt optimized o_contact) (contact parsed)"

definition payloadEducation ::
  "ParsedResume \<Rightarrow> OptimizedSections option \<Rightarrow> EducationEntry list" where
  "payloadEducation parsed optimized = orDefault (opt optimized o_education) (education parsed)"

definition payloadExperience ::
  "ParsedResume \<Rightarrow> OptimizedSections option \<Rightarrow> OptExperience list" where
  "payloadExperience parsed optimized =
     orDefault (opt optimized o_experience) (map asOverlay (experience parsed))"

definition payloadSkills :: "ParsedResume \<Rightarrow> OptimizedSections option \<Rightarrow> string list" where
  "payloadSkills parsed optimized = orDefault (opt optimized o_skills) (skills parsed)"

text \<open>The object literal the payload starts from.\<close>

definition payloadHead :: "ParsedResume \<Rightarrow> OptimizedSections option \<Rightarrow> payload" where
  "payloadHead parsed optimized =
     (let contact' = payloadContact parsed optimized;
          skills' = payloadSkills parsed optimized
      in
      [ (''contact.name'', orDefault (c_name contact') []),
        (''contact.phone'', orDefault (c_phone contact') []),
        (''contact.email'', orDefault (c_email contact') []),
        (''contact.location'', orDefault (c_location contact') []),
        (''contact.linkedin'', orDefault (c_linkedin contact') []),
        (''skills'', join '', '' (orDefault (Some skills') (skills parsed))) ])"

definition buildTemplatePayload :: "ParsedResume \<Rightarrow> OptimizedSections option \<Rightarrow> payload" where
  "buildTemplatePayload parsed optimized =
     (let education' = payloadEducation parsed optimized;
          experience' = payloadExperience parsed optimized;
          payload0 = payloadHead parsed optimized;
          payload1 =
            fold (\<lambda>i. setKeys (educationSlot parsed education' i)) [0..<MAX_EDUCATION] payload0;
          payload2 =
            fold (\<lambda>i. setKeys (experienceSlot parsed experience' i)) [0..<MAX_EXPERIENCE] payload1;
          payload3 =
            fold (\<lambda>i. setKeys (projectSlot parsed i)) [0..<MAX_PROJECTS] payload2
      in payload3)"

text \<open>The keys each loop body writes at index \<open>i\<close>, and all keys of the capped slots.\<close>

definition educationKeys :: "nat \<Rightarrow> string list" where
  "educationKeys i =
     [ ''education.'' @ natToString i @ ''.school'', ''education.'' @ natToString i @ ''.degree'',
       ''education.'' @ natToString i @ ''.dates'', ''education.'' @ natToString i @ ''.gpa'' ]"

definition experienceBulletKey :: "nat \<Rightarrow> nat \<Rightarrow> string" where
  "experienceBulletKey i j = ''experience.'' @ natToString i @ ''.bullet.'' @ natToString j"

definition experienceKeys :: "nat \<Rightarrow> string list" where
  "experienceKeys i =
     [ ''experience.'' @ natToString i @ ''.company'', ''experience.'' @ natToString i @ ''.role'',
       ''experience.'' @ natToString i @ ''.location'', ''experience.'' @ natToString i @ ''.dates'',
       ''experience.'' @ natToString i @ ''.subheader'' ]
     @ map (experienceBulletKey i) [0..<MAX_EXPERIENCE_BULLETS]"

definition projectBulletKey :: "nat \<Rightarrow> nat \<Rightarrow> string" where
  "projectBulletKey i j = ''projects.'' @ natToString i @ ''.bullet.'' @ natToString j"

definition projectKeys :: "nat \<Rightarrow> string list" where
  "projectKeys i =
     (''projects.'' @ natToString i @ ''.title'')
     # map (projectBulletKey i) [0..<MAX_PROJECT_BULLETS]"

definition payloadKeys :: "string list" where
  "payloadKeys =
    [''contact.name'', ''contact.phone'', ''contact.email'', ''contact.location'',
     ''contact.linkedin'', ''skills'',
     ''education.0.school'', ''education.0.degree'', ''education.0.dates'', ''education.0.gpa'',
     ''education.1.school'', ''education.1.degree'', ''education.1.dates'', ''education.1.gpa'',
     ''experience.0.company'', ''experience.0.role'', ''experience.0.location'',
     ''experience.0.dates'', ''experience.0.subheader'', ''experience.0.bullet.0'',
     ''experience.0.bullet.1'', ''experience.0.bullet.2'', ''experience.0.bullet.3'',
     ''experience.1.company'', ''experience.1.role'', ''experience.1.location'',
     ''experience.1.dates'', ''experience.1.subheader'', ''experience.1.bullet.0'',
     ''experience.1.bullet.1'', ''experience.1.bullet.2'', ''experience.1.bullet.3'',
     ''experience.2.company'', ''experience.2.role'', ''experience.2.location'',
     ''experience.2.dates'', ''experience.2.subheader'', ''experience.2.bullet.0'',
     ''experience.2.bullet.1'', ''experience.2.bullet.2'', ''experience.2.bullet.3'',
     ''projects.0.title'', ''projects.0.bullet.0'', ''projects.0.bullet.1'',
     ''projects.1.title'', ''projects.1.bullet.0'', ''projects.1.bullet.1'']"

section \<open>Characters and strings of the JavaScript runtime\<close>

text \<open>
  Character classes of regular expressions without the \<open>u\<close> flag, on code units below 256:
  \<open>\w\<close> is \<open>[A-Za-z0-9_]\<close>, \<open>\d\<close> is \<open>[0-9]\<close>, and \<open>\s\<close> is tab, line feed, vertical tab,
  form feed, carriage return, space and the no-break space.
\<close>

definition code :: "char \<Rightarrow> nat" where
  "code c = of_char c"

definition inRange :: "nat \<Rightarrow> nat \<Rightarrow> nat \<Rightarrow> bool" where
  "inRange lo hi n = (lo \<le> n \<and> n \<le> hi)"

definition digitCode :: "nat \<Rightarrow> bool" where
  "digitCode n = inRange 48 57 n"

definition upperCode :: "nat \<Rightarrow> bool" where
  "upperCode n = inRange 65 90 n"

definition alphaCode :: "nat \<Rightarrow> bool" where
  "alphaCode n = (upperCode n \<or> inRange 97 122 n)"

definition wordCode :: "nat \<Rightarrow> bool" where
  "wordCode n = (alphaCode n \<or> digitCode n \<or> n = 95)"

definition spaceCode :: "nat \<Rightarrow> bool" where
  "spaceCode n = (n \<in> {9, 10, 11, 12, 13, 32, 160})"

definition isDigit :: "char \<Rightarrow> bool" where
  "isDigit c = digitCode (code c)"

definition isUpper :: "char \<Rightarrow> bool" where
  "isUpper c = upperCode (code c)"

definition isAlpha :: "char \<Rightarrow> bool" where
  "isAlpha c = alphaCode (code c)"

definition isWord :: "char \<Rightarrow> bool" where
  "isWord c = wordCode (code c)"

definition isSpace :: "char \<Rightarrow> bool" where
  "isSpace c = spaceCode (code c)"

text \<open>
  \<open>s.toLowerCase()\<close> on code units below 256: the letters \<open>A\<close> to \<open>Z\<close> and the Latin-1
  capitals (192 to 222, but not the multiplication sign 215) move up by 32.
\<close>

definition lowerCode :: "nat \<Rightarrow> nat" where
  "lowerCode n = (if upperCode n \<or> (inRange 192 222 n \<and> n \<noteq> 215) then n + 32 else n)"

definition toLowerChar :: "char \<Rightarrow> char" where
  "toLowerChar c = char_of (lowerCode (code c))"

definition toLowerCase :: "string \<Rightarrow> string" where
  "toLowerCase s = map toLowerChar s"

text \<open>\<open>s.trim()\<close>.\<close>

definition trim :: "string \<Rightarrow> string" where
  "trim s = rev (dropWhile isSpace (rev (dropWhile isSpace s)))"

text \<open>\<open>s.split(c)\<close> for a separator of one character: the pieces between its occurrences.\<close>

fun splitOn :: "char \<Rightarrow> string \<Rightarrow> string list" where
  "splitOn sep [] = [[]]"
| "splitOn sep (c # cs) =
     (if c = sep then [] # splitOn sep cs
      else (case splitOn sep cs of
              [] \<Rightarrow> [[c]]
            | w # ws \<Rightarrow> (c # w) # ws))"

text \<open>\<open>new Set(xs)\<close>, as the list of its members in insertion order.\<close>

definition setAdd :: "'a \<Rightarrow> 'a list \<Rightarrow> 'a list" where
  "setAdd x s = (if x \<in> set s then s else s @ [x])"

definition newSet :: "'a list \<Rightarrow> 'a list" where
  "newSet xs = fold setAdd xs []"

section \<open>Keyword comparison (lib/analyze)\<close>

record AnalyzeResponse =
  missingKeywords :: "string list"
  matchedKeywords :: "string list"

text \<open>\<open>.replace(/[^\w\s]/g, " ")\<close>.\<close>

definition replaceNonWord :: "string \<Rightarrow> string" where
  "replaceNonWord s = map (\<lambda>c. if \<not> isWord c \<and> \<not> isSpace c then CHR '' '' else c) s"

text \<open>\<open>.replace(/\s+/g, " ")\<close>: every maximal run of whitespace becomes one space.\<close>

function collapseSpaces :: "string \<Rightarrow> string" where
  "collapseSpaces [] = []"
| "collapseSpaces (c # cs) =
     (if isSpace c then CHR '' '' # collapseSpaces (dropWhile isSpace cs)
      else c # collapseSpaces cs)"
  by pat_completeness auto
termination
  by (relation "measure length") (auto simp: le_imp_less_Suc length_dropWhile_le)

text \<open>\<open>/^\d+$/.test(s)\<close>.\<close>

definition allDigits :: "string \<Rightarrow> bool" where
  "allDigits s = (s \<noteq> [] \<and> list_all isDigit s)"

definition normalizeText :: "string \<Rightarrow> string" where
  "normalizeText text = collapseSpaces (replaceNonWord (toLowerCase text))"

definition keepToken :: "string \<Rightarrow> bool" where
  "keepToken s = (length s > 2 \<and> \<not> allDigits s)"

definition tokenize :: "string \<Rightarrow> string list" where
  "tokenize text =
     (let normalized = normalizeText text
      in newSet (filter keepToken (map trim (splitOn CHR '' '' normalized))))"

text \<open>\<open>.filter(Boolean)\<close> on optional strings: \<open>undefined\<close> and the empty string go.\<close>

definition truthy :: "string option \<Rightarrow> bool" where
  "truthy x = (case x of None \<Rightarrow> False | Some s \<Rightarrow> s \<noteq> [])"

definition filterBoolean :: "string option list \<Rightarrow> string list" where
  "filterBoolean xs = map the (filter truthy xs)"

definition resumeText :: "ParsedResume \<Rightarrow> string" where
  "resumeText resume =
     (let parts =
        [ c_name (contact resume), c_email (contact resume),
          Some (join '' '' (skills resume)) ]
        @ concat (map (\<lambda>e. [ex_company e, ex_role e] @ map Some (ex_bullets e))
                    (experience resume))
        @ concat (map (\<lambda>p. pr_title p # map Some (pr_bullets p)) (projects resume))
        @ map (\<lambda>e. Some (orDefault (ed_rawText e)
                            (join '' '' (filterBoolean [ed_school e, ed_degree e]))))
            (education resume)
      in join '' '' (filterBoolean parts))"

text \<open>The loop over the job tokens: each goes to one of the two arrays.\<close>

definition classifyToken :: "string list \<Rightarrow> string \<Rightarrow> AnalyzeResponse \<Rightarrow> AnalyzeResponse" where
  "classifyToken resumeTokens t r =
     (if t \<in> set resumeTokens then r \<lparr> matchedKeywords := matchedKeywords r @ [t] \<rparr>
      else r \<lparr> missingKeywords := missingKeywords r @ [t] \<rparr>)"

definition compareKeywords :: "ParsedResume \<Rightarrow> string \<Rightarrow> AnalyzeResponse" where
  "compareKeywords resume jobDescription =
     (let jobTokens = tokenize jobDescription;
          resumeTokens = tokenize (resumeText resume)
      in fold (classifyToken resumeTokens) jobTokens
           \<lparr> missingKeywords = [], matchedKeywords = [] \<rparr>)"

section \<open>Template generation (scripts/generate-template)\<close>











definition braceFree :: "string \<Rightarrow> bool" where
  "braceFree s = (CHR ''{'' \<notin> set s \<and> CHR ''}'' \<notin> set s)"


text \<open>The shape of the tokens the replacement list is built with.\<close>

definition isToken :: "string \<Rightarrow> bool" where
  "isToken t \<longleftrightarrow> t \<noteq> [] \<and> hd t = CHR ''{'' \<and> last t = CHR ''}''"

section \<open>populateTemplate (lib/template-populate)\<close>

text \<open>\<open>s.replace(/c/g, r)\<close> for a single character \<open>c\<close>.\<close>

definition replaceChar :: "char \<Rightarrow> string \<Rightarrow> string \<Rightarrow> string" where
  "replaceChar c r s = concat (map (\<lambda>x. if x = c then r else [x]) s)"

definition escapeXmlText :: "string \<Rightarrow> string" where
  "escapeXmlText s =
     replaceChar (CHR 0x27) ''&apos;''
       (replaceChar (CHR 0x22) ''&quot;''
          (replaceChar CHR ''>'' ''&gt;''
             (replaceChar CHR ''<'' ''&lt;''
                (replaceChar CHR ''&'' ''&amp;'' s))))"

text \<open>
  \<open>s.split(sep)\<close> for a non-empty separator string: the pieces between the occurrences of
  \<open>sep\<close>, found from left to right without overlap.
\<close>

function splitStr :: "string \<Rightarrow> string \<Rightarrow> string list" where
  "splitStr sep [] = [[]]"
| "splitStr sep (c # cs) =
     (if sep \<noteq> [] \<and> prefix sep (c # cs) then [] # splitStr sep (drop (length sep) (c # cs))
      else (case splitStr sep cs of
              [] \<Rightarrow> [[c]]
            | w # ws \<Rightarrow> (c # w) # ws))"
  by pat_completeness auto
termination
  by (relation "measure (\<lambda>(sep, s). length s)") (auto simp: Suc_le_eq)

declare splitStr.simps [simp del]

definition placeholder :: "string \<Rightarrow> string" where
  "placeholder key = ''{{'' @ key @ ''}}''"

text \<open>
  One turn of the fallback loop: \<open>if (docXml.includes(placeholder)) docXml =
  docXml.split(placeholder).join(escapeXmlText(value))\<close>.
\<close>

definition fillPlaceholder :: "string \<Rightarrow> string \<Rightarrow> string \<Rightarrow> string" where
  "fillPlaceholder key value docXml =
     (if sublist (placeholder key) docXml
      then join (escapeXmlText value) (splitStr (placeholder key) docXml)
      else docXml)"

definition fillRemaining :: "payload \<Rightarrow> string \<Rightarrow> string" where
  "fillRemaining payload docXml = fold (\<lambda>(key, value). fillPlaceholder key value) payload docXml"

text \<open>
  A docx buffer is modelled by the text of its \<open>word/document.xml\<close> entry, \<open>None\<close> when the
  package has no such entry.  \<open>patchDocument\<close> belongs to the docx library: it is a
  parameter, given the template and the patches (each key with its escaped value) and
  returning the patched package.
\<close>

definition populateTemplate ::
  "(string option \<Rightarrow> payload \<Rightarrow> string option) \<Rightarrow> string option \<Rightarrow> payload \<Rightarrow> string option" where
  "populateTemplate patchDocument templateBuffer payload =
     (let patches = map (\<lambda>(key, value). (key, escapeXmlText value)) payload;
          outBuffer = patchDocument templateBuffer patches
      in case outBuffer of
           None \<Rightarrow> None
         | Some docXml \<Rightarrow> Some (fillRemaining payload docXml))"

text \<open>
  A templated text, piece by piece: a character that is no brace, or a placeholder
  \<open>{{key}}\<close> whose key holds no brace.
\<close>

datatype piece = Text char | Hole string

fun renderPiece :: "piece \<Rightarrow> string" where
  "renderPiece (Text c) = [c]"
| "renderPiece (Hole key) = placeholder key"

definition render :: "piece list \<Rightarrow> string" where
  "render ps = concat (map renderPiece ps)"

fun wellFormed :: "piece \<Rightarrow> bool" where
  "wellFormed (Text c) = (c \<noteq> CHR ''{'' \<and> c \<noteq> CHR ''}'')"
| "wellFormed (Hole key) = braceFree key"

text \<open>The pieces after the placeholder of \<open>key\<close> is filled with the text \<open>v\<close>.\<close>

fun fillPiece :: "string \<Rightarrow> string \<Rightarrow> piece \<Rightarrow> piece list" where
  "fillPiece key v (Text c) = [Text c]"
| "fillPiece key v (Hole key') = (if key' = key then map Text v else [Hole key'])"

definition fillPieces :: "string \<Rightarrow> string \<Rightarrow> piece list \<Rightarrow> piece list" where
  "fillPieces key v ps = concat (map (fillPiece key v) ps)"

text \<open>The pieces after the whole payload is filled in, entry by entry.\<close>

definition fillAll :: "payload \<Rightarrow> piece list \<Rightarrow> piece list" where
  "fillAll payload ps = fold (\<lambda>(k, v). fillPieces k (escapeXmlText v)) payload ps"

section \<open>Regular expressions of the JavaScript runtime\<close>

text \<open>
  The regular expressions of the parser are values of \<open>rx\<close>, matched by backtracking in
  the order of the ECMAScript matcher: alternatives from left to right, greedy repetition,
  and a repetition with minimum 0 gives up an iteration that matches the empty string.  A
  cursor is the text before the position (reversed) and the text from it on.  One capture
  is kept, that of group 1: no expression of the parser reads another.
\<close>

datatype rx =
    Atom "char \<Rightarrow> bool"
  | Eps
  | Seq rx rx
  | Alt rx rx
  | Rep nat "nat option" rx
  | Group rx
  | Look rx
  | Bol bool
  | Eol bool
  | WordB

type_synonym cursor = "string \<times> string"
type_synonym cap = "string option"
type_synonym mres = "cursor \<times> cap"

definition isLineTerminator :: "char \<Rightarrow> bool" where
  "isLineTerminator c = (c = CHR 0x0A \<or> c = CHR 0x0D)"

text \<open>\<open>^\<close> and \<open>$\<close>, with the \<open>m\<close> flag (\<open>True\<close>) or without it, and \<open>\b\<close>.\<close>

definition atBol :: "bool \<Rightarrow> cursor \<Rightarrow> bool" where
  "atBol multiline cur =
     (case fst cur of [] \<Rightarrow> True | c # _ \<Rightarrow> multiline \<and> isLineTerminator c)"

definition atEol :: "bool \<Rightarrow> cursor \<Rightarrow> bool" where
  "atEol multiline cur =
     (case snd cur of [] \<Rightarrow> True | c # _ \<Rightarrow> multiline \<and> isLineTerminator c)"

definition atWordB :: "cursor \<Rightarrow> bool" where
  "atWordB cur =
     ((case fst cur of [] \<Rightarrow> False | c # _ \<Rightarrow> isWord c)
      \<noteq> (case snd cur of [] \<Rightarrow> False | c # _ \<Rightarrow> isWord c))"

fun rsize :: "rx \<Rightarrow> nat" where
  "rsize (Seq r1 r2) = Suc (rsize r1 + rsize r2)"
| "rsize (Alt r1 r2) = Suc (rsize r1 + rsize r2)"
| "rsize (Rep mn mx r) = Suc (mn + rsize r)"
| "rsize (Group r) = Suc (rsize r)"
| "rsize (Look r) = Suc (rsize r)"
| "rsize r = 0"

text \<open>The upper bound of a repetition after one more iteration.\<close>

fun decMax :: "nat option \<Rightarrow> nat option" where
  "decMax None = None"
| "decMax (Some n) = Some (n - 1)"

function mt :: "rx \<Rightarrow> cursor \<Rightarrow> cap \<Rightarrow> (cursor \<Rightarrow> cap \<Rightarrow> mres option) \<Rightarrow> mres option" where
  "mt (Atom p) cur cp k =
     (case snd cur of
        [] \<Rightarrow> None
      | c # cs \<Rightarrow> if p c then k (c # fst cur, cs) cp else None)"
| "mt Eps cur cp k = k cur cp"
| "mt (Seq r1 r2) cur cp k = mt r1 cur cp (\<lambda>cur' cp'. mt r2 cur' cp' k)"
| "mt (Alt r1 r2) cur cp k =
     (case mt r1 cur cp k of
        Some x \<Rightarrow> Some x
      | None \<Rightarrow> mt r2 cur cp k)"
| "mt (Rep mn mx r) cur cp k =
     (if mx = Some 0 then k cur cp
      else
        (case mt r cur cp
                (\<lambda>cur' cp'.
                   if mn = 0 then
                     (if length (snd cur') < length (snd cur)
                      then mt (Rep 0 (decMax mx) r) cur' cp' k else None)
                   else mt (Rep (mn - 1) (decMax mx) r) cur' cp' k) of
           Some x \<Rightarrow> Some x
         | None \<Rightarrow> if mn = 0 then k cur cp else None))"
| "mt (Group r) cur cp k =
     mt r cur cp
       (\<lambda>cur' cp'. k cur' (Some (take (length (snd cur) - length (snd cur')) (snd cur))))"
| "mt (Look r) cur cp k =
     (case mt r cur cp (\<lambda>cur' cp'. Some (cur', cp')) of
        None \<Rightarrow> None
      | Some (cur', cp') \<Rightarrow> k cur cp')"
| "mt (Bol m) cur cp k = (if atBol m cur then k cur cp else None)"
| "mt (Eol m) cur cp k = (if atEol m cur then k cur cp else None)"
| "mt WordB cur cp k = (if atWordB cur then k cur cp else None)"
  by pat_completeness auto
termination
  by (relation "measures [\<lambda>(r, cur, cp, k). rsize r, \<lambda>(r, cur, cp, k). length (snd cur)]") auto

declare mt.simps [simp del]

text \<open>A match that starts at the cursor: the cursor after it and the capture.\<close>

definition matchAt :: "rx \<Rightarrow> cursor \<Rightarrow> mres option" where
  "matchAt r cur = mt r cur None (\<lambda>cur' cp'. Some (cur', cp'))"

text \<open>
  The first match at or after the cursor, as \<open>RegExp.prototype.exec\<close> finds it: the cursor
  where it starts, and the cursor after it with the capture.
\<close>

fun searchFrom :: "rx \<Rightarrow> string \<Rightarrow> string \<Rightarrow> (cursor \<times> mres) option" where
  "searchFrom r pre [] =
     (case matchAt r (pre, []) of
        None \<Rightarrow> None
      | Some m \<Rightarrow> Some ((pre, []), m))"
| "searchFrom r pre (c # cs) =
     (case matchAt r (pre, c # cs) of
        None \<Rightarrow> searchFrom r (c # pre) cs
      | Some m \<Rightarrow> Some ((pre, c # cs), m))"

text \<open>The text between two cursors of one string.\<close>

definition between :: "cursor \<Rightarrow> cursor \<Rightarrow> string" where
  "between cur cur' = take (length (snd cur) - length (snd cur')) (snd cur)"

text \<open>\<open>re.test(s)\<close>; \<open>s.match(re)\<close> read at \<open>[0]\<close> and at \<open>[1]\<close> (no \<open>g\<close> flag).\<close>

definition rxTest :: "rx \<Rightarrow> string \<Rightarrow> bool" where
  "rxTest r s = (searchFrom r [] s \<noteq> None)"

definition rxMatch0 :: "rx \<Rightarrow> string \<Rightarrow> string option" where
  "rxMatch0 r s =
     (case searchFrom r [] s of
        None \<Rightarrow> None
      | Some (cur, (cur', cp)) \<Rightarrow> Some (between cur cur'))"

definition rxMatch1 :: "rx \<Rightarrow> string \<Rightarrow> string option" where
  "rxMatch1 r s =
     (case searchFrom r [] s of
        None \<Rightarrow> None
      | Some (cur, (cur', cp)) \<Rightarrow> cp)"

text \<open>\<open>s.replace(re, to)\<close> without the \<open>g\<close> flag: the first match is replaced.\<close>

definition rxReplaceFirst :: "rx \<Rightarrow> string \<Rightarrow> string \<Rightarrow> string" where
  "rxReplaceFirst r to s =
     (case searchFrom r [] s of
        None \<Rightarrow> s
      | Some (cur, (cur', cp)) \<Rightarrow> rev (fst cur) @ to @ snd cur')"

text \<open>
  \<open>s.split(re)\<close> for an expression without capture groups (the expressions the parser
  splits at have none).  At each position \<open>q\<close> the expression is tried; a match that ends at
  the start \<open>p\<close> of the current piece (an empty match at \<open>q = p\<close>) is passed over, any other
  match closes the piece and the search goes on behind the match.  The piece collected so far
  is kept reversed.
\<close>

function splitRxFrom :: "rx \<Rightarrow> string \<Rightarrow> string \<Rightarrow> string \<Rightarrow> string list" where
  "splitRxFrom r piece pre [] = [rev piece]"
| "splitRxFrom r piece pre (c # cs) =
     (case matchAt r (pre, c # cs) of
        None \<Rightarrow> splitRxFrom r (c # piece) (c # pre) cs
      | Some (cur', cp) \<Rightarrow>
          if length (snd cur') < length (c # cs)
          then rev piece # splitRxFrom r [] (fst cur') (snd cur')
          else if length (snd cur') = length (c # cs) \<and> piece \<noteq> []
          then rev piece # splitRxFrom r [] pre (c # cs)
          else splitRxFrom r (c # piece) (c # pre) cs)"
  by pat_completeness auto
termination
  by (relation "measures [\<lambda>(r, piece, pre, s). length s, \<lambda>(r, piece, pre, s). length piece]")
    auto

declare splitRxFrom.simps [simp del]

definition rxSplit :: "rx \<Rightarrow> string \<Rightarrow> string list" where
  "rxSplit r s =
     (if s = [] then (if matchAt r ([], []) = None then [[]] else [])
      else splitRxFrom r [] [] s)"

text \<open>Building blocks: a character, a string, with and without the \<open>i\<close> flag.\<close>

definition chr :: "char \<Rightarrow> rx" where
  "chr c = Atom (\<lambda>x. x = c)"

text \<open>Under the \<open>i\<close> flag two characters match when they are equal after case folding.\<close>

definition chrI :: "char \<Rightarrow> rx" where
  "chrI c = Atom (\<lambda>x. lowerCode (code x) = lowerCode (code c))"

fun seqs :: "rx list \<Rightarrow> rx" where
  "seqs [] = Eps"
| "seqs [r] = r"
| "seqs (r # rs) = Seq r (seqs rs)"

fun alts :: "rx list \<Rightarrow> rx" where
  "alts [] = Eps"
| "alts [r] = r"
| "alts (r # rs) = Alt r (alts rs)"

definition str :: "string \<Rightarrow> rx" where
  "str s = seqs (map chr s)"

definition strI :: "string \<Rightarrow> rx" where
  "strI s = seqs (map chrI s)"

definition star :: "rx \<Rightarrow> rx" where "star r = Rep 0 None r"
definition plus :: "rx \<Rightarrow> rx" where "plus r = Rep 1 None r"
definition opt' :: "rx \<Rightarrow> rx" where "opt' r = Rep 0 (Some 1) r"

text \<open>\<open>.\<close> (no line terminator), \<open>\w\<close>, \<open>\s\<close>, \<open>\d\<close>.\<close>

definition dot :: rx where "dot = Atom (\<lambda>c. \<not> isLineTerminator c)"
definition wordC :: rx where "wordC = Atom isWord"
definition spaceC :: rx where "spaceC = Atom isSpace"
definition digitC :: rx where "digitC = Atom isDigit"

section \<open>The resume parser (lib/resume-parser): education\<close>

text \<open>
  Character classes of the parser's expressions.  The dash class of the source holds the
  hyphen, the en dash (U+2013) and the em dash (U+2014), written \<open>[-..]\<close> below; the two
  dashes are code units above 255, so on the texts of this model the class is the hyphen.
\<close>

definition wordOrSpace :: rx where
  "wordOrSpace = Atom (\<lambda>c. wordCode (code c) \<or> spaceCode (code c))"
definition alphaC :: rx where "alphaC = Atom isAlpha"
definition alphaOrSpace :: rx where
  "alphaOrSpace = Atom (\<lambda>c. alphaCode (code c) \<or> spaceCode (code c))"
definition dashC :: rx where "dashC = Atom (\<lambda>c. c = CHR ''-'')"
definition newlineC :: rx where "newlineC = chr (CHR 0x0A)"

text \<open>\<open>B\.?S\.?\<close> and its like, under the \<open>i\<close> flag.\<close>

definition abbrev :: "char \<Rightarrow> char \<Rightarrow> rx" where
  "abbrev a b = seqs [chrI a, opt' (chr CHR ''.''), chrI b, opt' (chr CHR ''.'')]"

text \<open>
  \<open>/\n(?=[A-Z][a-z].*(?:University|College|Institute|School|Bachelor|Master|PhD|B\.?S\.?|M\.?S\.?|B\.?A\.?|M\.?A\.?))/i\<close>
\<close>

definition educationStart :: rx where
  "educationStart =
     Seq newlineC
       (Look (seqs [alphaC, alphaC, star dot,
          alts [strI ''University'', strI ''College'', strI ''Institute'', strI ''School'',
                strI ''Bachelor'', strI ''Master'', strI ''PhD'',
                abbrev CHR ''B'' CHR ''S'', abbrev CHR ''M'' CHR ''S'',
                abbrev CHR ''B'' CHR ''A'', abbrev CHR ''M'' CHR ''A'']]))"

text \<open>\<open>/(\w+\s+\d{4}\s*[-..]\s*(?:\w+\s+)?\d{4})/\<close>\<close>

definition educationDates :: rx where
  "educationDates =
     Group (seqs [plus wordC, plus spaceC, Rep 4 (Some 4) digitC, star spaceC, dashC,
                  star spaceC, opt' (Seq (plus wordC) (plus spaceC)), Rep 4 (Some 4) digitC])"

text \<open>\<open>/GPA[:\s]*([\d.]+)/i\<close>\<close>

definition educationGpa :: rx where
  "educationGpa =
     seqs [strI ''GPA'', star (Atom (\<lambda>c. c = CHR '':'' \<or> isSpace c)),
           Group (plus (Atom (\<lambda>c. isDigit c \<or> c = CHR ''.'')))]"

text \<open>
  \<open>/(?:B\.?S\.?|M\.?S\.?|B\.?A\.?|M\.?A\.?|PhD|Bachelor'?s?|Master'?s?)\s*(?:in\s+[\w\s]+)?/i\<close>
\<close>

definition educationDegree :: rx where
  "educationDegree =
     seqs [alts [abbrev CHR ''B'' CHR ''S'', abbrev CHR ''M'' CHR ''S'',
                 abbrev CHR ''B'' CHR ''A'', abbrev CHR ''M'' CHR ''A'', strI ''PhD'',
                 seqs [strI ''Bachelor'', opt' (chr (CHR 0x27)), opt' (chrI CHR ''s'')],
                 seqs [strI ''Master'', opt' (chr (CHR 0x27)), opt' (chrI CHR ''s'')]],
           star spaceC,
           opt' (seqs [strI ''in'', plus spaceC, plus wordOrSpace])]"

text \<open>
  \<open>/(?:University of [^|\n]+|[\w\s]+(?:University|College|Institute)(?:\s+of\s+[\w\s]+)?)(?=\s*[|\n]|$)/i\<close>
\<close>

definition educationSchool :: rx where
  "educationSchool =
     seqs [Alt (seqs [strI ''University of '',
                      plus (Atom (\<lambda>c. c \<noteq> CHR ''|'' \<and> c \<noteq> CHR 0x0A))])
               (seqs [plus wordOrSpace,
                      alts [strI ''University'', strI ''College'', strI ''Institute''],
                      opt' (seqs [plus spaceC, strI ''of'', plus spaceC, plus wordOrSpace])]),
           Look (Alt (seqs [star spaceC, Atom (\<lambda>c. c = CHR ''|'' \<or> c = CHR 0x0A)])
                     (Eol False))]"

text \<open>\<open>/\s*\|\s*GPA.*$/i\<close>\<close>

definition gpaTail :: rx where
  "gpaTail = seqs [star spaceC, chr CHR ''|'', star spaceC, strI ''GPA'', star dot, Eol False]"

text \<open>\<open>DATE_RANGE_REGEX = /(\w+\s+\d{4}\s*[-..]\s*(?:Present|\w+\s+\d{4}))/i\<close>\<close>

definition DATE_RANGE_REGEX :: rx where
  "DATE_RANGE_REGEX =
     Group (seqs [plus wordC, plus spaceC, Rep 4 (Some 4) digitC, star spaceC, dashC,
                  star spaceC,
                  Alt (strI ''Present'') (seqs [plus wordC, plus spaceC, Rep 4 (Some 4) digitC])])"

text \<open>\<open>/^GPA/i\<close>\<close>

definition startsWithGpa :: rx where
  "startsWithGpa = Seq (Bol False) (strI ''GPA'')"

text \<open>\<open>x || undefined\<close> on an optional string.\<close>

definition orUndefined :: "string option \<Rightarrow> string option" where
  "orUndefined x = (if truthy x then x else None)"

text \<open>\<open>t.split(/\n/)[0]?.trim() ?? ""\<close>: the first line, trimmed.\<close>

definition firstLineOf :: "string \<Rightarrow> string" where
  "firstLineOf t = orDefault (map_option trim (at (splitOn (CHR 0x0A) t) 0)) []"

text \<open>The body of the loop over the blocks, for a block whose trimmed text \<open>t\<close> is not empty.\<close>

definition educationEntry :: "string \<Rightarrow> EducationEntry" where
  "educationEntry t =
     (let datesMatch = rxMatch1 educationDates t;
          gpaMatch = rxMatch1 educationGpa t;
          degree = map_option trim (rxMatch0 educationDegree t);
          school0 = map_option (\<lambda>m. trim (rxReplaceFirst gpaTail [] m))
                      (rxMatch0 educationSchool t);
          school =
            (if \<not> truthy school0 then
               (let firstLine = firstLineOf t
                in if firstLine \<noteq> [] \<and> \<not> rxTest DATE_RANGE_REGEX firstLine
                      \<and> \<not> rxTest startsWithGpa firstLine
                   then Some (trim (rxReplaceFirst gpaTail [] firstLine))
                   else school0)
             else school0)
      in \<lparr> ed_school = orUndefined school,
           ed_degree = orUndefined degree,
           ed_dates = datesMatch,
           ed_gpa = gpaMatch,
           ed_rawText = Some t \<rparr>)"

text \<open>The entries of one block: none when the block is blank.\<close>

definition educationOfBlock :: "string \<Rightarrow> EducationEntry list" where
  "educationOfBlock block = (let t = trim block in if t = [] then [] else [educationEntry t])"

definition rawTextOnly :: "string \<Rightarrow> EducationEntry" where
  "rawTextOnly t =
     \<lparr> ed_school = None, ed_degree = None, ed_dates = None, ed_gpa = None,
       ed_rawText = Some t \<rparr>"

definition parseEducationBlock :: "string \<Rightarrow> EducationEntry list" where
  "parseEducationBlock text =
     (let blocks = rxSplit educationStart text;
          entries = concat (map educationOfBlock blocks)
      in if length entries = 0 \<and> trim text \<noteq> [] then entries @ [rawTextOnly (trim text)]
         else entries)"

text \<open>
  The text of a section, as \<open>splitBySectionHeaders\<close> and the section loop of
  \<open>parseResumeFromBuffer\<close> hand it to the section parsers:
  \<open>content: currentContent.join("\n").trim()\<close>.
\<close>

definition sectionContent :: "string list \<Rightarrow> string" where
  "sectionContent currentContent = trim (join [CHR 0x0A] currentContent)"

section \<open>The resume parser (lib/resume-parser): experience\<close>

text \<open>\<open>text.split(/\n/).map((l) => l.trim()).filter(Boolean)\<close>: the non-blank lines, trimmed.\<close>

definition linesOf :: "string \<Rightarrow> string list" where
  "linesOf text = filter (\<lambda>l. l \<noteq> []) (map trim (splitOn (CHR 0x0A) text))"

text \<open>
  \<open>bulletStart\<close>: a bullet glyph, hyphen, asterisk, digit, plus sign or full stop at the start,
  and the whitespace behind it.  The glyphs are code units above 255.
\<close>

definition bulletStart :: rx where
  "bulletStart =
     seqs [Bol False,
           Atom (\<lambda>c. c = CHR ''-'' \<or> c = CHR ''*'' \<or> digitCode (code c) \<or> c = CHR ''+''
                    \<or> c = CHR ''.''),
           star spaceC]"

definition extractBullets :: "string \<Rightarrow> string list" where
  "extractBullets text =
     (let lines = linesOf text;
          bullets = filter (\<lambda>cleaned. cleaned \<noteq> [])
                      (map (\<lambda>line. trim (rxReplaceFirst bulletStart [] line)) lines)
      in if length bullets > 0 then bullets else filter (\<lambda>l. l \<noteq> []) lines)"

text \<open>\<open>EXPERIENCE_JOB_SPLIT = /\n(?=[A-Za-z][^\n]{1,45}\n\s*\|)/\<close>\<close>

definition notNewline :: rx where
  "notNewline = Atom (\<lambda>c. c \<noteq> CHR 0x0A)"

definition EXPERIENCE_JOB_SPLIT :: rx where
  "EXPERIENCE_JOB_SPLIT =
     Seq newlineC
       (Look (seqs [alphaC, Rep 1 (Some 45) notNewline, newlineC, star spaceC, chr CHR ''|'']))"

text \<open>\<open>EXPERIENCE_JOB_SPLIT_TAB_DATE = /\n(?=[^\n]*\t\w+\s+\d{4}\s*[-..])/\<close>\<close>

definition EXPERIENCE_JOB_SPLIT_TAB_DATE :: rx where
  "EXPERIENCE_JOB_SPLIT_TAB_DATE =
     Seq newlineC
       (Look (seqs [star notNewline, chr (CHR 0x09), plus wordC, plus spaceC,
                    Rep 4 (Some 4) digitC, star spaceC, dashC]))"

text \<open>\<open>EXPERIENCE_DATE_REGEX = /(\w+\s+\d{4}\s*[-..]\s*(?:Present|\w+\s+\d{4}))/i\<close>\<close>

definition EXPERIENCE_DATE_REGEX :: rx where
  "EXPERIENCE_DATE_REGEX =
     Group (seqs [plus wordC, plus spaceC, Rep 4 (Some 4) digitC, star spaceC, dashC,
                  star spaceC,
                  Alt (strI ''Present'') (seqs [plus wordC, plus spaceC, Rep 4 (Some 4) digitC])])"

text \<open>\<open>ROLE_KEYWORDS = /engineer|developer|lead|analyst|manager|designer|founder|architect/i\<close>\<close>

definition ROLE_KEYWORDS :: rx where
  "ROLE_KEYWORDS =
     alts [strI ''engineer'', strI ''developer'', strI ''lead'', strI ''analyst'',
           strI ''manager'', strI ''designer'', strI ''founder'', strI ''architect'']"

text \<open>
  \<open>looksLikeLocation\<close>, with its expressions \<open>/\s*\|\s*$/\<close>,
  \<open>/^[A-Za-z\s]+,\s*(?:[A-Z]{2}|Washington|California|NY|TX)$/i\<close> and
  \<open>/^[A-Za-z\s]+,\s*[A-Za-z\s]+$/\<close>.
\<close>

definition pipeTail :: rx where
  "pipeTail = seqs [star spaceC, chr CHR ''|'', star spaceC, Eol False]"

definition stateNames :: rx where
  "stateNames =
     alts [Rep 2 (Some 2) alphaC, strI ''Washington'', strI ''California'', strI ''NY'',
           strI ''TX'']"

definition cityState :: rx where
  "cityState =
     seqs [Bol False, plus alphaOrSpace, chr CHR '','', star spaceC, stateNames, Eol False]"

definition cityAny :: rx where
  "cityAny =
     seqs [Bol False, plus alphaOrSpace, chr CHR '','', star spaceC, plus alphaOrSpace,
           Eol False]"

definition looksLikeLocation :: "string \<Rightarrow> bool" where
  "looksLikeLocation s =
     (let t = trim (rxReplaceFirst pipeTail [] s)
      in rxTest cityState t \<or> rxTest cityAny t)"

text \<open>
  \<open>looksLikeTechOrSkills\<close>: \<open>/,/\<close> or
  \<open>/\b(?:AWS|Python|React|Node|TypeScript|Go|Java|C#|SQL)\b/i\<close>.
\<close>

definition techWord :: rx where
  "techWord =
     seqs [WordB,
           alts [strI ''AWS'', strI ''Python'', strI ''React'', strI ''Node'', strI ''TypeScript'',
                 strI ''Go'', strI ''Java'', strI ''C#'', strI ''SQL''],
           WordB]"

definition looksLikeTechOrSkills :: "string \<Rightarrow> bool" where
  "looksLikeTechOrSkills s = (rxTest (chr CHR '','') s \<or> rxTest techWord s)"

text \<open>\<open>s.includes("|")\<close>, and the two sides of the first \<open>|\<close>, trimmed.\<close>

definition hasPipe :: "string \<Rightarrow> bool" where
  "hasPipe s = (CHR ''|'' \<in> set s)"

definition leftOfPipe :: "string \<Rightarrow> string" where
  "leftOfPipe s = trim (takeWhile (\<lambda>c. c \<noteq> CHR ''|'') s)"

definition rightOfPipe :: "string \<Rightarrow> string" where
  "rightOfPipe s = trim (drop 1 (dropWhile (\<lambda>c. c \<noteq> CHR ''|'') s))"

definition stripExperienceHeaderLines :: "string \<Rightarrow> string \<Rightarrow> string" where
  "stripExperienceHeaderLines block firstLine =
     (let lines = linesOf block
      in if length lines = 0 then block
         else
           (let skipCount =
                  (if at lines 0 = Some (trim firstLine) then
                     (if length lines > 1 \<and> hasPipe (lines ! 1)
                         \<and> (looksLikeTechOrSkills (rightOfPipe (lines ! 1))
                              \<or> rxTest ROLE_KEYWORDS (leftOfPipe (lines ! 1)))
                      then 2 else 1)
                   else 0)
            in join [CHR 0x0A] (drop skipCount lines)))"

text \<open>
  The variables the loop over the header lines assigns: \<open>role\<close>, \<open>location\<close>, \<open>dates\<close> and
  \<open>subheader\<close>.
\<close>

record Header =
  h_role :: "string option"
  h_location :: "string option"
  h_dates :: "string option"
  h_subheader :: "string option"

text \<open>One turn of \<open>for (const line of headerLines)\<close>.\<close>

definition headerLine :: "string \<Rightarrow> Header \<Rightarrow> Header" where
  "headerLine line h =
     (case rxMatch1 EXPERIENCE_DATE_REGEX line of
        Some d \<Rightarrow> h \<lparr> h_dates := Some d \<rparr>
      | None \<Rightarrow>
          if hasPipe line then
            (let left = leftOfPipe line; right = rightOfPipe line
             in if rxTest ROLE_KEYWORDS left then
                  (let h1 = (if \<not> truthy (h_role h) then h \<lparr> h_role := Some left \<rparr> else h)
                   in if looksLikeLocation right then h1 \<lparr> h_location := Some right \<rparr> else h1)
                else if looksLikeLocation left then
                  (let h1 = h \<lparr> h_location := Some left \<rparr>
                   in if rxTest ROLE_KEYWORDS right then h1 \<lparr> h_role := Some right \<rparr> else h1)
                else if looksLikeLocation right then
                  (let h1 = h \<lparr> h_location := Some right \<rparr>
                   in if length left > 0 \<and> length left < 60 then h1 \<lparr> h_role := Some left \<rparr>
                      else h1)
                else if looksLikeTechOrSkills right \<and> rxTest ROLE_KEYWORDS left then
                  h \<lparr> h_role := Some left, h_subheader := Some right \<rparr>
                else h)
          else if looksLikeLocation line then h \<lparr> h_location := Some line \<rparr>
          else if rxTest ROLE_KEYWORDS line \<and> length line < 60 \<and> \<not> truthy (h_role h)
          then h \<lparr> h_role := Some line \<rparr>
          else h)"

text \<open>
  The second search for a location: a line of letters, followed by a line that is a state
  code or name.  Its expressions are \<open>/^[A-Za-z\s]+,?\s*$/i\<close>, \<open>/^[A-Z]{2}$/\<close>,
  \<open>/^(?:Washington|California)$/i\<close>, \<open>/\s*,\s*$/\<close> and \<open>/,?\s*$/\<close>.
\<close>

definition cityLine :: rx where
  "cityLine = seqs [Bol False, plus alphaOrSpace, opt' (chr CHR '',''), star spaceC, Eol False]"

definition stateCode :: rx where
  "stateCode = seqs [Bol False, Rep 2 (Some 2) (Atom isUpper), Eol False]"

definition stateName :: rx where
  "stateName = seqs [Bol False, Alt (strI ''Washington'') (strI ''California''), Eol False]"

definition commaTail :: rx where
  "commaTail = seqs [star spaceC, chr CHR '','', star spaceC, Eol False]"

definition commaOrEnd :: rx where
  "commaOrEnd = seqs [opt' (chr CHR '',''), star spaceC, Eol False]"

fun cityThenState :: "string list \<Rightarrow> nat \<Rightarrow> nat \<Rightarrow> string option" where
  "cityThenState lines i 0 = None"
| "cityThenState lines i (Suc n) =
     (let line = orDefault (map_option trim (at lines i)) [];
          next = collapseSpaces (orDefault (map_option trim (at lines (i + 1))) [])
      in if rxTest cityLine line \<and> (rxTest stateCode next \<or> rxTest stateName next)
         then Some (rxReplaceFirst commaOrEnd '', '' (rxReplaceFirst commaTail '', '' line) @ next)
         else cityThenState lines (i + 1) n)"

text \<open>
  \<open>/([A-Za-z\s]+,\s*(?:[A-Z]{2}|Washington|California|NY|TX))(?:\s*[\n|]|$)/im\<close>
\<close>

definition locationInBlock :: rx where
  "locationInBlock =
     seqs [Group (seqs [plus alphaOrSpace, chr CHR '','', star spaceC, stateNames]),
           Alt (seqs [star spaceC, Atom (\<lambda>c. c = CHR 0x0A \<or> c = CHR ''|'')]) (Eol True)]"

text \<open>\<open>/^[A-Z\s]+$/\<close>: a first line of capitals is a section heading.\<close>

definition capitalsOnly :: rx where
  "capitalsOnly =
     seqs [Bol False, plus (Atom (\<lambda>c. upperCode (code c) \<or> spaceCode (code c))), Eol False]"

text \<open>\<open>x.length < 50 ? x : undefined\<close>.\<close>

definition shorterThan50 :: "string \<Rightarrow> string option" where
  "shorterThan50 x = (if length x < 50 then Some x else None)"

text \<open>The body of the loop over the job blocks: no entry for a block that is skipped.\<close>

definition experienceOfBlock :: "string \<Rightarrow> ExperienceEntry list" where
  "experienceOfBlock block =
     (let lines = linesOf block
      in case at lines 0 of
           None \<Rightarrow> []
         | Some firstLine \<Rightarrow>
             if firstLine = ''WORK EXPERIENCE'' \<or> firstLine = ''EXPERIENCE''
                \<or> rxTest capitalsOnly firstLine
             then []
             else
               (let tabParts = splitOn (CHR 0x09) firstLine;
                    firstPart = orDefault (map_option trim (at tabParts 0)) firstLine;
                    datePartFromFirst = map_option trim (at tabParts 1);
                    dates0 =
                      (if truthy datePartFromFirst
                       then rxMatch1 EXPERIENCE_DATE_REGEX (the datePartFromFirst) else None);
                    company =
                      (if hasPipe firstPart then
                         (if looksLikeLocation (rightOfPipe firstPart)
                          then shorterThan50 (leftOfPipe firstPart)
                          else shorterThan50 firstPart)
                       else shorterThan50 firstPart);
                    location0 =
                      (if hasPipe firstPart \<and> looksLikeLocation (rightOfPipe firstPart)
                       then Some (rightOfPipe firstPart) else None);
                    h0 = \<lparr> h_role = None, h_location = location0, h_dates = dates0,
                           h_subheader = None \<rparr>;
                    h1 = fold headerLine (take 5 (drop 1 lines)) h0;
                    h2 =
                      (if \<not> truthy (h_location h1) \<and> length lines \<ge> 2 then
                         (case cityThenState lines 1 (min (length lines) 6 - 1) of
                            Some l \<Rightarrow> h1 \<lparr> h_location := Some l \<rparr>
                          | None \<Rightarrow> h1)
                       else h1);
                    h3 =
                      (if \<not> truthy (h_dates h2) then
                         (case rxMatch1 EXPERIENCE_DATE_REGEX block of
                            Some d \<Rightarrow> h2 \<lparr> h_dates := Some d \<rparr>
                          | None \<Rightarrow> h2)
                       else h2);
                    h4 =
                      (if \<not> truthy (h_location h3) then
                         (case rxMatch1 locationInBlock (take 400 block) of
                            Some l \<Rightarrow> h3 \<lparr> h_location := Some (trim l) \<rparr>
                          | None \<Rightarrow> h3)
                       else h3);
                    blockWithoutHeader = stripExperienceHeaderLines block firstLine;
                    bullets = extractBullets blockWithoutHeader
                in [ \<lparr> ex_company =
                         (if length (orDefault company []) < 50 then company else None),
                       ex_role = orUndefined (h_role h4),
                       ex_location = orUndefined (h_location h4),
                       ex_dates = orUndefined (h_dates h4),
                       ex_subheader = orUndefined (h_subheader h4),
                       ex_bullets = (if length bullets > 0 then bullets else []) \<rparr> ]))"

text \<open>\<open>text.replace(/\r\n/g, "\n").replace(/\r/g, "\n")\<close>.\<close>

fun crlfToLf :: "string \<Rightarrow> string" where
  "crlfToLf (a # b # s) =
     (if a = CHR 0x0D \<and> b = CHR 0x0A then CHR 0x0A # crlfToLf s else a # crlfToLf (b # s))"
| "crlfToLf s = s"

definition normalizeNewlines :: "string \<Rightarrow> string" where
  "normalizeNewlines text = map (\<lambda>c. if c = CHR 0x0D then CHR 0x0A else c) (crlfToLf text)"

definition notBlank :: "string \<Rightarrow> bool" where
  "notBlank s = (trim s \<noteq> [])"

definition parseExperienceBlock :: "string \<Rightarrow> ExperienceEntry list" where
  "parseExperienceBlock text =
     (let normalized = normalizeNewlines text;
          byTabDate = filter notBlank (rxSplit EXPERIENCE_JOB_SPLIT_TAB_DATE normalized);
          jobBlocks =
            (if length byTabDate \<le> 1
             then filter notBlank (rxSplit EXPERIENCE_JOB_SPLIT normalized)
             else byTabDate);
          entries = concat (map experienceOfBlock jobBlocks)
      in if length entries = 0 \<and> trim text \<noteq> [] then
           (let bullets = extractBullets text
            in entries @
               [ \<lparr> ex_company = None, ex_role = None, ex_location = None, ex_dates = None,
                   ex_subheader = None,
                   ex_bullets = (if length bullets > 0 then bullets else [trim text]) \<rparr> ])
         else entries)"

section \<open>Concrete inputs\<close>

definition resume0 :: ParsedResume where
  "resume0 =
     \<lparr> contact = \<lparr> c_name = Some ''Ann Lee'', c_email = None, c_phone = None,
                    c_location = None, c_linkedin = None \<rparr>,
       education = [],
       experience =
         [ \<lparr> ex_company = Some ''Acme'', ex_role = Some ''Engineer'', ex_location = None,
             ex_dates = None, ex_subheader = None, ex_bullets = [''Built APIs''] \<rparr> ],
       projects = [],
       skills = [''Python'', ''AWS''],
       otherSections = None \<rparr>"

definition emptyContact :: Contact where
  "emptyContact =
     \<lparr> c_name = None, c_email = None, c_phone = None, c_location = None, c_linkedin = None \<rparr>"

definition noOverlay :: OptimizedSections where
  "noOverlay =
     \<lparr> o_experience = None, o_education = None, o_projects = None, o_skills = None,
       o_contact = None \<rparr>"

definition resume2 :: ParsedResume where
  "resume2 =
     \<lparr> contact = \<lparr> c_name = Some ''Ann Lee'', c_email = Some ''ann@lee.io'', c_phone = None,
                    c_location = None, c_linkedin = None \<rparr>,
       education = [],
       experience =
         [ \<lparr> ex_company = Some ''Acme'', ex_role = Some ''Engineer'',
             ex_location = Some ''Seattle, WA'', ex_dates = Some ''Jan 2020 - Present'',
             ex_subheader = Some ''AWS, Python'', ex_bullets = [''Built APIs''] \<rparr>,
           \<lparr> ex_company = Some ''Initech'', ex_role = Some ''Analyst'',
             ex_location = Some ''Austin, TX'', ex_dates = Some ''Jan 2018 - Dec 2019'',
             ex_subheader = None, ex_bullets = [''Wrote reports''] \<rparr> ],
       projects = [],
       skills = [''Python'', ''AWS''],
       otherSections = None \<rparr>"

definition overlay1Entries :: "OptExperience list" where
  "overlay1Entries =
     [ \<lparr> ox_company = Some ''Acme'', ox_role = Some ''Engineer'', ox_subheader = None,
         ox_bullets = Some [''Built REST APIs''] \<rparr> ]"

definition overlay1 :: OptimizedSections where
  "overlay1 = noOverlay \<lparr> o_experience := Some overlay1Entries \<rparr>"




definition template0 :: "piece list" where
  "template0 = map Text ''<w:t>'' @ [Hole ''contact.name''] @ map Text ''</w:t>''"

definition resumeAmp :: ParsedResume where
  "resumeAmp =
     \<lparr> contact = emptyContact,
       education = [],
       experience =
         [ \<lparr> ex_company = Some ''AT&T'', ex_role = None, ex_location = None,
             ex_dates = None, ex_subheader = None, ex_bullets = [] \<rparr> ],
       projects = [],
       skills = [],
       otherSections = None \<rparr>"

text \<open>A \<open>patchDocument\<close> that reaches no placeholder, as for one inside a hyperlink.\<close>

definition patchNothing :: "string option \<Rightarrow> payload \<Rightarrow> string option" where
  "patchNothing templateBuffer patches = templateBuffer"

text \<open>
  An experience section of three lines: the company, the role on a line of its own (no
  \<open>|\<close> in it), and one bullet.
\<close>

definition experienceText0 :: string where
  "experienceText0 = ''Acme'' @ [CHR 0x0A] @ ''Engineer'' @ [CHR 0x0A] @ ''- Built it''"

section \<open>Properties of the merge\<close>

lemma length_mapIdx: "length (mapIdx f xs) = length xs"
  by (simp add: mapIdx_def)

lemma nth_mapIdx: "i < length xs \<Longrightarrow> mapIdx f xs ! i = f (xs ! i) i"
  by (simp add: mapIdx_def)

text \<open>
  C10.  The merged resume carries the original resume's \<open>otherSections\<close>, whatever the
  overlay holds.
\<close>

theorem merge_otherSections_unchanged:
  "otherSections (mergeOptimizedIntoResume parsed optimized) = otherSections parsed"
  by (simp add: mergeOptimizedIntoResume_def Let_def)

section \<open>Properties of buildTemplatePayload\<close>

subsection \<open>The payload as a list of entries\<close>

lemma natToString_digits:
  "natToString 0 = ''0''" "natToString (Suc 0) = ''1''" "natToString 1 = ''1''"
  "natToString 2 = ''2''" "natToString 3 = ''3''"
  by (simp_all add: natToString.simps)

lemma setKey_fresh: "k \<notin> fst ` set p \<Longrightarrow> setKey k v p = p @ [(k, v)]"
  by (induction p) auto

lemma setKeys_fresh:
  "distinct (map fst p @ map fst kvs) \<Longrightarrow> setKeys kvs p = p @ kvs"
  unfolding setKeys_def
proof (induction kvs arbitrary: p)
  case Nil
  then show ?case by simp
next
  case (Cons kv kvs)
  obtain k v where kv: "kv = (k, v)" by (cases kv)
  from Cons.prems have fresh: "k \<notin> fst ` set p" by (auto simp: kv)
  from Cons.prems have "distinct (map fst (p @ [(k, v)]) @ map fst kvs)" by (auto simp: kv)
  from Cons.IH[OF this] show ?case by (simp add: kv setKey_fresh[OF fresh])
qed

lemma fold_setKeys_fresh:
  "distinct (map fst p @ concat (map (\<lambda>i. map fst (f i)) ns)) \<Longrightarrow>
   fold (\<lambda>i. setKeys (f i)) ns p = p @ concat (map f ns)"
proof (induction ns arbitrary: p)
  case Nil
  then show ?case by simp
next
  case (Cons n ns)
  from Cons.prems have 1: "distinct (map fst p @ map fst (f n))" by auto
  from Cons.prems have 2: "distinct (map fst (p @ f n) @ concat (map (\<lambda>i. map fst (f i)) ns))" by auto
  show ?case using Cons.IH[OF 2] by (simp add: setKeys_fresh[OF 1])
qed

lemma keys_educationSlot: "map fst (educationSlot parsed e i) = educationKeys i"
  by (simp add: educationSlot_def Let_def educationKeys_def)

lemma keys_experienceSlot: "map fst (experienceSlot parsed e i) = experienceKeys i"
  by (simp add: experienceSlot_def Let_def experienceKeys_def experienceBulletKey_def comp_def)

lemma keys_projectSlot: "map fst (projectSlot parsed i) = projectKeys i"
  by (simp add: projectSlot_def Let_def projectKeys_def projectBulletKey_def comp_def)

lemma keys_payloadHead:
  "map fst (payloadHead parsed optimized) =
     [''contact.name'', ''contact.phone'', ''contact.email'', ''contact.location'',
      ''contact.linkedin'', ''skills'']"
  by (simp add: payloadHead_def Let_def)

lemma slotKeys_eq:
  "[''contact.name'', ''contact.phone'', ''contact.email'', ''contact.location'',
    ''contact.linkedin'', ''skills'']
   @ concat (map educationKeys [0..<MAX_EDUCATION])
   @ concat (map experienceKeys [0..<MAX_EXPERIENCE])
   @ concat (map projectKeys [0..<MAX_PROJECTS])
   = payloadKeys"
  by code_simp

lemma distinct_payloadKeys: "distinct payloadKeys"
  by code_simp

lemma distinct_app1: "distinct (a @ b @ c) \<Longrightarrow> distinct (a @ b)"
  by auto

lemma payload_append:
  "buildTemplatePayload parsed optimized =
     payloadHead parsed optimized
     @ concat (map (educationSlot parsed (payloadEducation parsed optimized)) [0..<MAX_EDUCATION])
     @ concat (map (experienceSlot parsed (payloadExperience parsed optimized)) [0..<MAX_EXPERIENCE])
     @ concat (map (projectSlot parsed) [0..<MAX_PROJECTS])"
proof -
  let ?E = "educationSlot parsed (payloadEducation parsed optimized)"
  let ?X = "experienceSlot parsed (payloadExperience parsed optimized)"
  let ?P = "projectSlot parsed"
  let ?p0 = "payloadHead parsed optimized"
  let ?K0 = "map fst ?p0"
  let ?KE = "concat (map educationKeys [0..<MAX_EDUCATION])"
  let ?KX = "concat (map experienceKeys [0..<MAX_EXPERIENCE])"
  let ?KP = "concat (map projectKeys [0..<MAX_PROJECTS])"
  let ?p1 = "?p0 @ concat (map ?E [0..<MAX_EDUCATION])"
  let ?p2 = "?p1 @ concat (map ?X [0..<MAX_EXPERIENCE])"
  have d: "distinct (?K0 @ ?KE @ ?KX @ ?KP)"
    by (simp only: keys_payloadHead slotKeys_eq distinct_payloadKeys)
  have dC: "distinct (?K0 @ ?KE)" by (rule distinct_app1[OF d])
  have dA: "distinct ((?K0 @ ?KE) @ ?KX @ ?KP)" using d by (simp only: append_assoc)
  have dB: "distinct ((?K0 @ ?KE) @ ?KX)" by (rule distinct_app1[OF dA])
  have dD: "distinct (((?K0 @ ?KE) @ ?KX) @ ?KP)" using d by (simp only: append_assoc)
  have d1: "distinct (map fst ?p0 @ concat (map (\<lambda>i. map fst (?E i)) [0..<MAX_EDUCATION]))"
    using dC by (simp only: keys_educationSlot)
  have 1: "fold (\<lambda>i. setKeys (?E i)) [0..<MAX_EDUCATION] ?p0 = ?p1"
    by (rule fold_setKeys_fresh[OF d1])
  have d2: "distinct (map fst ?p1 @ concat (map (\<lambda>i. map fst (?X i)) [0..<MAX_EXPERIENCE]))"
    using dB by (simp only: map_append map_concat map_map comp_def keys_educationSlot keys_experienceSlot)
  have 2: "fold (\<lambda>i. setKeys (?X i)) [0..<MAX_EXPERIENCE] ?p1 = ?p2"
    by (rule fold_setKeys_fresh[OF d2])
  have d3: "distinct (map fst ?p2 @ concat (map (\<lambda>i. map fst (?P i)) [0..<MAX_PROJECTS]))"
    using dD by (simp only: map_append map_concat map_map comp_def
        keys_educationSlot keys_experienceSlot keys_projectSlot)
  have 3: "fold (\<lambda>i. setKeys (?P i)) [0..<MAX_PROJECTS] ?p2 = ?p2 @ concat (map ?P [0..<MAX_PROJECTS])"
    by (rule fold_setKeys_fresh[OF d3])
  have e: "buildTemplatePayload parsed optimized =
     fold (\<lambda>i. setKeys (?P i)) [0..<MAX_PROJECTS]
       (fold (\<lambda>i. setKeys (?X i)) [0..<MAX_EXPERIENCE]
          (fold (\<lambda>i. setKeys (?E i)) [0..<MAX_EDUCATION] ?p0))"
    by (simp add: buildTemplatePayload_def Let_def)
  show ?thesis unfolding e 1 2 3 by (simp only: append_assoc)
qed

lemma keys_payload: "map fst (buildTemplatePayload parsed optimized) = payloadKeys"
  by (simp add: payload_append keys_payloadHead keys_educationSlot keys_experienceSlot
      keys_projectSlot map_concat comp_def slotKeys_eq[symmetric])

lemma lookup_payload:
  "(k, v) \<in> set (buildTemplatePayload parsed optimized) \<Longrightarrow>
   map_of (buildTemplatePayload parsed optimized) k = Some v"
  by (rule map_of_is_SomeI) (simp_all add: keys_payload distinct_payloadKeys)

lemma head_in_payload:
  "kv \<in> set (payloadHead parsed optimized) \<Longrightarrow> kv \<in> set (buildTemplatePayload parsed optimized)"
  by (simp add: payload_append)


lemma experience_in_payload:
  "i < MAX_EXPERIENCE \<Longrightarrow> kv \<in> set (experienceSlot parsed (payloadExperience parsed optimized) i) \<Longrightarrow>
   kv \<in> set (buildTemplatePayload parsed optimized)"
  by (auto simp: payload_append)










section \<open>Overlay and original entries\<close>

lemma merge_experience:
  "o_experience optimized = Some es \<Longrightarrow> es \<noteq> [] \<Longrightarrow>
   experience (mergeOptimizedIntoResume parsed optimized) = mapIdx (mergeExperience parsed) es"
  by (simp add: mergeOptimizedIntoResume_def Let_def)

lemma experienceSlot_fields:
  "(''experience.'' @ natToString i @ ''.company'',
      orDefault (orElse (opt (at e i) ox_company) (opt (at (experience parsed) i) ex_company)) [])
     \<in> set (experienceSlot parsed e i)"
  "(''experience.'' @ natToString i @ ''.role'',
      orDefault (orElse (opt (at e i) ox_role) (opt (at (experience parsed) i) ex_role)) [])
     \<in> set (experienceSlot parsed e i)"
  "(''experience.'' @ natToString i @ ''.location'',
      orDefault (opt (at (experience parsed) i) ex_location) [])
     \<in> set (experienceSlot parsed e i)"
  "(''experience.'' @ natToString i @ ''.dates'',
      orDefault (opt (at (experience parsed) i) ex_dates) [])
     \<in> set (experienceSlot parsed e i)"
  "(''experience.'' @ natToString i @ ''.subheader'',
      orDefault (orElse (opt (at e i) ox_subheader) (opt (at (experience parsed) i) ex_subheader)) [])
     \<in> set (experienceSlot parsed e i)"
  unfolding experienceSlot_def Let_def set_append
  by (rule UnI1, simp)+

text \<open>
  C2 (as amended).  With an overlay of \<open>N\<close> experience entries, \<open>1 \<le> N \<le> M\<close>, the merged
  resume has \<open>N\<close> experience entries, in the overlay's order: one per overlay entry.  Entry
  \<open>i\<close> takes its location and dates from the original entry \<open>i\<close>, its subheader from the
  overlay or, when the overlay omits it, from the original entry \<open>i\<close>, and its bullets from
  the overlay.  In the payload of \<open>buildTemplatePayload\<close> every capped experience slot \<open>i\<close>
  (also \<open>i \<ge> N\<close>) takes location and dates from the original entry \<open>i\<close>, and company, role
  and subheader from the overlay entry \<open>i\<close> or else from the original entry \<open>i\<close>.
\<close>

theorem merge_experience_positional:
  assumes "o_experience optimized = Some es" and "1 \<le> length es"
    and "length es \<le> length (experience parsed)"
  shows "length (experience (mergeOptimizedIntoResume parsed optimized)) = length es \<and>
    (\<forall>i < length es.
       ex_location (experience (mergeOptimizedIntoResume parsed optimized) ! i)
         = ex_location (experience parsed ! i) \<and>
       ex_dates (experience (mergeOptimizedIntoResume parsed optimized) ! i)
         = ex_dates (experience parsed ! i) \<and>
       ex_subheader (experience (mergeOptimizedIntoResume parsed optimized) ! i)
         = orElse (ox_subheader (es ! i)) (ex_subheader (experience parsed ! i)) \<and>
       ex_bullets (experience (mergeOptimizedIntoResume parsed optimized) ! i)
         = orDefault (ox_bullets (es ! i)) []) \<and>
    (\<forall>i < MAX_EXPERIENCE.
       map_of (buildTemplatePayload parsed (Some optimized)) (''experience.'' @ natToString i @ ''.location'')
         = Some (orDefault (opt (at (experience parsed) i) ex_location) []) \<and>
       map_of (buildTemplatePayload parsed (Some optimized)) (''experience.'' @ natToString i @ ''.dates'')
         = Some (orDefault (opt (at (experience parsed) i) ex_dates) []) \<and>
       map_of (buildTemplatePayload parsed (Some optimized)) (''experience.'' @ natToString i @ ''.company'')
         = Some (orDefault (orElse (opt (at es i) ox_company) (opt (at (experience parsed) i) ex_company)) []) \<and>
       map_of (buildTemplatePayload parsed (Some optimized)) (''experience.'' @ natToString i @ ''.role'')
         = Some (orDefault (orElse (opt (at es i) ox_role) (opt (at (experience parsed) i) ex_role)) []) \<and>
       map_of (buildTemplatePayload parsed (Some optimized)) (''experience.'' @ natToString i @ ''.subheader'')
         = Some (orDefault (orElse (opt (at es i) ox_subheader) (opt (at (experience parsed) i) ex_subheader)) []))"
proof (intro conjI allI impI)
  from assms have ne: "es \<noteq> []" by auto
  note m = merge_experience[OF assms(1) ne]
  show "length (experience (mergeOptimizedIntoResume parsed optimized)) = length es"
    by (simp add: m length_mapIdx)
  fix i assume i: "i < length es"
  with assms(3) have i': "i < length (experience parsed)" by simp
  show "ex_location (experience (mergeOptimizedIntoResume parsed optimized) ! i)
         = ex_location (experience parsed ! i)"
    by (simp add: m nth_mapIdx[OF i] mergeExperience_def at_def i' opt_def)
  show "ex_dates (experience (mergeOptimizedIntoResume parsed optimized) ! i)
         = ex_dates (experience parsed ! i)"
    by (simp add: m nth_mapIdx[OF i] mergeExperience_def at_def i' opt_def)
  show "ex_subheader (experience (mergeOptimizedIntoResume parsed optimized) ! i)
         = orElse (ox_subheader (es ! i)) (ex_subheader (experience parsed ! i))"
    by (simp add: m nth_mapIdx[OF i] mergeExperience_def at_def i' opt_def)
  show "ex_bullets (experience (mergeOptimizedIntoResume parsed optimized) ! i)
         = orDefault (ox_bullets (es ! i)) []"
    by (simp add: m nth_mapIdx[OF i] mergeExperience_def Let_def)
next
  fix i assume i: "i < MAX_EXPERIENCE"
  have e: "payloadExperience parsed (Some optimized) = es"
    by (simp add: payloadExperience_def opt_def assms(1))
  note L = lookup_payload[OF experience_in_payload[OF i], of _ _ parsed "Some optimized", unfolded e]
  show "map_of (buildTemplatePayload parsed (Some optimized)) (''experience.'' @ natToString i @ ''.location'')
         = Some (orDefault (opt (at (experience parsed) i) ex_location) [])"
    by (rule L) (rule experienceSlot_fields)
  show "map_of (buildTemplatePayload parsed (Some optimized)) (''experience.'' @ natToString i @ ''.dates'')
         = Some (orDefault (opt (at (experience parsed) i) ex_dates) [])"
    by (rule L) (rule experienceSlot_fields)
  show "map_of (buildTemplatePayload parsed (Some optimized)) (''experience.'' @ natToString i @ ''.company'')
         = Some (orDefault (orElse (opt (at es i) ox_company) (opt (at (experience parsed) i) ex_company)) [])"
    by (rule L) (rule experienceSlot_fields)
  show "map_of (buildTemplatePayload parsed (Some optimized)) (''experience.'' @ natToString i @ ''.role'')
         = Some (orDefault (orElse (opt (at es i) ox_role) (opt (at (experience parsed) i) ex_role)) [])"
    by (rule L) (rule experienceSlot_fields)
  show "map_of (buildTemplatePayload parsed (Some optimized)) (''experience.'' @ natToString i @ ''.subheader'')
         = Some (orDefault (orElse (opt (at es i) ox_subheader) (opt (at (experience parsed) i) ex_subheader)) [])"
    by (rule L) (rule experienceSlot_fields)
qed

theorem merge_experience_positional_witness:
  "length (experience (mergeOptimizedIntoResume resume2 overlay1)) = 1 \<and>
   ex_location (experience (mergeOptimizedIntoResume resume2 overlay1) ! 0) = Some ''Seattle, WA'' \<and>
   ex_dates (experience (mergeOptimizedIntoResume resume2 overlay1) ! 0) = Some ''Jan 2020 - Present'' \<and>
   ex_subheader (experience (mergeOptimizedIntoResume resume2 overlay1) ! 0) = Some ''AWS, Python'' \<and>
   ex_bullets (experience (mergeOptimizedIntoResume resume2 overlay1) ! 0) = [''Built REST APIs''] \<and>
   map_of (buildTemplatePayload resume2 (Some overlay1)) ''experience.1.location'' = Some ''Austin, TX'' \<and>
   map_of (buildTemplatePayload resume2 (Some overlay1)) ''experience.1.company'' = Some ''Initech''"
proof -
  have h: "o_experience overlay1 = Some overlay1Entries" "1 \<le> length overlay1Entries"
    "length overlay1Entries \<le> length (experience resume2)"
    by (simp_all add: overlay1_def noOverlay_def overlay1Entries_def resume2_def)
  note T = merge_experience_positional[OF h]
  have i0: "0 < length overlay1Entries" by (simp add: overlay1Entries_def)
  have i1: "1 < MAX_EXPERIENCE" by (simp add: MAX_EXPERIENCE_def)
  have v: "ex_location (experience resume2 ! 0) = Some ''Seattle, WA''"
    "ex_dates (experience resume2 ! 0) = Some ''Jan 2020 - Present''"
    "orElse (ox_subheader (overlay1Entries ! 0)) (ex_subheader (experience resume2 ! 0)) = Some ''AWS, Python''"
    "orDefault (ox_bullets (overlay1Entries ! 0)) [] = [''Built REST APIs'']"
    "orDefault (opt (at (experience resume2) 1) ex_location) [] = ''Austin, TX''"
    "orDefault (orElse (opt (at overlay1Entries 1) ox_company) (opt (at (experience resume2) 1) ex_company)) [] = ''Initech''"
    "''experience.'' @ natToString 1 @ ''.location'' = ''experience.1.location''"
    "''experience.'' @ natToString 1 @ ''.company'' = ''experience.1.company''"
    "length overlay1Entries = 1"
    by (simp_all add: overlay1Entries_def resume2_def at_def opt_def natToString_digits)
  from T i0 i1 v show ?thesis by metis
qed

text \<open>
  The claim as stated fails on the count: an original with two experience entries and an
  overlay with one merge into one entry.
\<close>

theorem merge_experience_count_counterexample:
  "length (experience resume2) = 2 \<and>
   o_experience overlay1 = Some overlay1Entries \<and>
   length overlay1Entries = 1 \<and>
   length (experience (mergeOptimizedIntoResume resume2 overlay1)) = 1"
  by code_simp

section \<open>Empty overlay sections\<close>










section \<open>Token-mode comparison\<close>

lemma set_fold_setAdd: "set (fold setAdd xs s) = set s \<union> set xs"
  by (induction xs arbitrary: s) (auto simp: setAdd_def)

lemma distinct_fold_setAdd: "distinct s \<Longrightarrow> distinct (fold setAdd xs s)"
  by (induction xs arbitrary: s) (auto simp: setAdd_def)

lemma set_newSet: "set (newSet xs) = set xs"
  by (simp add: newSet_def set_fold_setAdd)

lemma distinct_newSet: "distinct (newSet xs)"
  by (simp add: newSet_def distinct_fold_setAdd)

lemma fold_classifyToken:
  "matchedKeywords (fold (classifyToken rt) ts r)
     = matchedKeywords r @ filter (\<lambda>t. t \<in> set rt) ts \<and>
   missingKeywords (fold (classifyToken rt) ts r)
     = missingKeywords r @ filter (\<lambda>t. t \<notin> set rt) ts"
  by (induction ts arbitrary: r) (auto simp: classifyToken_def)

lemma compareKeywords_lists:
  "matchedKeywords (compareKeywords resume jd)
     = filter (\<lambda>t. t \<in> set (tokenize (resumeText resume))) (tokenize jd)"
  "missingKeywords (compareKeywords resume jd)
     = filter (\<lambda>t. t \<notin> set (tokenize (resumeText resume))) (tokenize jd)"
  by (simp_all add: compareKeywords_def Let_def fold_classifyToken)

lemma distinct_tokenize: "distinct (tokenize text)"
  by (simp add: tokenize_def Let_def distinct_newSet)

text \<open>
  C1.  The matched and missing lists of \<open>compareKeywords\<close> partition the token set of the job
  description: their union is that set, they share no token, and no token is listed twice.
  The token set is the set of the pieces of the normalised text (lowercased, every character
  that is neither a word character nor whitespace replaced by a space, whitespace runs
  collapsed, split at spaces) that are longer than two characters and not all digits.  A
  token is matched exactly when it is a token of the resume text.
\<close>

theorem compareKeywords_partition:
  "set (matchedKeywords (compareKeywords resume jd)) \<union> set (missingKeywords (compareKeywords resume jd))
     = set (tokenize jd) \<and>
   set (matchedKeywords (compareKeywords resume jd)) \<inter> set (missingKeywords (compareKeywords resume jd))
     = {} \<and>
   distinct (matchedKeywords (compareKeywords resume jd) @ missingKeywords (compareKeywords resume jd)) \<and>
   set (matchedKeywords (compareKeywords resume jd))
     = set (tokenize jd) \<inter> set (tokenize (resumeText resume)) \<and>
   set (tokenize jd)
     = {t \<in> set (map trim (splitOn CHR '' '' (collapseSpaces (replaceNonWord (toLowerCase jd))))).
          length t > 2 \<and> \<not> allDigits t}"
proof (intro conjI)
  let ?r = "compareKeywords resume jd"
  show "set (matchedKeywords ?r) \<union> set (missingKeywords ?r) = set (tokenize jd)"
    by (auto simp: compareKeywords_lists)
  show "set (matchedKeywords ?r) \<inter> set (missingKeywords ?r) = {}"
    by (auto simp: compareKeywords_lists)
  show "distinct (matchedKeywords ?r @ missingKeywords ?r)"
    by (auto simp: compareKeywords_lists distinct_tokenize)
  show "set (matchedKeywords ?r) = set (tokenize jd) \<inter> set (tokenize (resumeText resume))"
    by (auto simp: compareKeywords_lists)
  show "set (tokenize jd)
     = {t \<in> set (map trim (splitOn CHR '' '' (collapseSpaces (replaceNonWord (toLowerCase jd))))).
          length t > 2 \<and> \<not> allDigits t}"
    by (auto simp: tokenize_def Let_def set_newSet keepToken_def normalizeText_def)
qed

theorem compareKeywords_partition_witness:
  "compareKeywords resume0 ''Golang/AWS: 2024 go''
     = \<lparr> missingKeywords = [''golang''], matchedKeywords = [''aws''] \<rparr> \<and>
   set (tokenize ''Golang/AWS: 2024 go'') = {''golang'', ''aws''}"
proof -
  let ?jd = "''Golang/AWS: 2024 go''"
  have m: "compareKeywords resume0 ?jd
     = \<lparr> missingKeywords = [''golang''], matchedKeywords = [''aws''] \<rparr>"
    by code_simp
  have "set (tokenize ?jd) = {''golang'', ''aws''}"
    using compareKeywords_partition[of resume0 ?jd, THEN conjunct1, symmetric]
    unfolding m by auto
  with m show ?thesis by simp
qed

section \<open>Running the template generation twice\<close>



















lemma isToken_shape: "isToken (CHR ''{'' # x @ ''}}'')"
  by (simp add: isToken_def)














section \<open>Filling the placeholders\<close>

lemma splitStr_nonempty: "splitStr sep s \<noteq> []"
  by (induction sep s rule: splitStr.induct) (auto simp: splitStr.simps split: list.splits)

lemma join_Cons_char: "ws \<noteq> [] \<Longrightarrow> join e ((c # hd ws) # tl ws) = c # join e ws"
  by (cases ws; cases "tl ws") auto

lemma join_Nil_Cons: "ws \<noteq> [] \<Longrightarrow> join e ([] # ws) = e @ join e ws"
  by (cases ws) auto

lemma fill_step_skip:
  "\<not> prefix sep (c # s) \<Longrightarrow>
   join e (splitStr sep (c # s)) = c # join e (splitStr sep s)"
  using splitStr_nonempty[of sep s] join_Cons_char[of "splitStr sep s" e c]
  by (auto simp: splitStr.simps split: list.splits)

lemma fill_step_match:
  "sep \<noteq> [] \<Longrightarrow> join e (splitStr sep (sep @ s)) = e @ join e (splitStr sep s)"
  using splitStr_nonempty[of sep s] join_Nil_Cons[of "splitStr sep s" e]
  by (cases sep) (auto simp: splitStr.simps)

lemma fill_skip_chars:
  assumes "sep \<noteq> []" "hd sep \<notin> set x"
  shows "join e (splitStr sep (x @ s)) = x @ join e (splitStr sep s)"
  using assms(2)
proof (induction x)
  case Nil
  show ?case by simp
next
  case (Cons c x)
  from Cons.prems assms(1) have "\<not> prefix sep (c # x @ s)"
    by (cases sep) auto
  with Cons show ?case by (simp add: fill_step_skip)
qed

lemma prefix_placeholder_iff:
  assumes "braceFree k" "braceFree key"
  shows "prefix (placeholder k) (placeholder key @ rest) \<longleftrightarrow> key = k"
proof
  assume "prefix (placeholder k) (placeholder key @ rest)"
  then obtain z where z: "key @ ''}}'' @ rest = k @ ''}}'' @ z"
    by (auto simp: placeholder_def prefix_def)
  have "takeWhile (\<lambda>c. c \<noteq> CHR ''}'') (key @ ''}}'' @ rest) = key"
    using assms(2) by (auto simp: braceFree_def takeWhile_tail)
  moreover have "takeWhile (\<lambda>c. c \<noteq> CHR ''}'') (k @ ''}}'' @ z) = k"
    using assms(1) by (auto simp: braceFree_def takeWhile_tail)
  ultimately show "key = k" using z by simp
next
  assume "key = k" then show "prefix (placeholder k) (placeholder key @ rest)" by simp
qed

lemma no_prefix_inside_placeholder:
  assumes "braceFree key"
  shows "\<not> prefix (placeholder k) (CHR ''{'' # key @ ''}}'' @ rest)"
proof
  assume "prefix (placeholder k) (CHR ''{'' # key @ ''}}'' @ rest)"
  then have "prefix (CHR ''{'' # k @ ''}}'') (key @ ''}}'' @ rest)"
    by (simp add: placeholder_def)
  then have "hd (key @ ''}}'' @ rest) = CHR ''{''"
    by (auto simp: prefix_def)
  with assms show False by (cases key) (auto simp: braceFree_def)
qed

lemma fill_other_hole:
  assumes "braceFree k" "braceFree key" "key \<noteq> k"
  shows "join e (splitStr (placeholder k) (placeholder key @ s))
       = placeholder key @ join e (splitStr (placeholder k) s)"
proof -
  let ?P = "placeholder k"
  have P: "?P \<noteq> []" "hd ?P = CHR ''{''" by (simp_all add: placeholder_def)
  have 0: "\<not> prefix ?P (CHR ''{'' # CHR ''{'' # key @ ''}}'' @ s)"
    using prefix_placeholder_iff[OF assms(1,2), of s] assms(3) by (simp add: placeholder_def)
  have 1: "\<not> prefix ?P (CHR ''{'' # key @ ''}}'' @ s)"
    by (rule no_prefix_inside_placeholder[OF assms(2)])
  have 2: "hd ?P \<notin> set (key @ ''}}'')"
    using assms(2) by (simp add: P braceFree_def)
  have "join e (splitStr ?P (placeholder key @ s))
      = CHR ''{'' # CHR ''{'' # join e (splitStr ?P ((key @ ''}}'') @ s))"
    using 0 1 by (simp add: placeholder_def fill_step_skip)
  also have "\<dots> = CHR ''{'' # CHR ''{'' # (key @ ''}}'') @ join e (splitStr ?P s)"
    by (simp only: fill_skip_chars[OF P(1) 2])
  finally show ?thesis by (simp add: placeholder_def)
qed

lemma render_Cons: "render (p # ps) = renderPiece p @ render ps"
  by (simp add: render_def)

lemma render_append: "render (ps @ qs) = render ps @ render qs"
  by (simp add: render_def)

lemma render_Text: "render (map Text s) = s"
  by (induction s) (simp_all add: render_def)

lemma fillPieces_Cons: "fillPieces k e (p # ps) = fillPiece k e p @ fillPieces k e ps"
  by (simp add: fillPieces_def)

lemma fill_render:
  assumes "braceFree k" "list_all wellFormed ps"
  shows "join e (splitStr (placeholder k) (render ps)) = render (fillPieces k e ps)"
  using assms(2)
proof (induction ps)
  case Nil
  show ?case by (simp add: render_def fillPieces_def splitStr.simps)
next
  case (Cons p ps)
  then have IH: "join e (splitStr (placeholder k) (render ps)) = render (fillPieces k e ps)"
    by simp
  show ?case
  proof (cases p)
    case (Text c)
    with Cons.prems have "\<not> prefix (placeholder k) (c # render ps)"
      by (auto simp: placeholder_def)
    then show ?thesis
      by (simp add: Text render_Cons fillPieces_Cons fill_step_skip IH)
  next
    case (Hole key)
    with Cons.prems have key: "braceFree key" by simp
    show ?thesis
    proof (cases "key = k")
      case True
      have "placeholder k \<noteq> []" by (simp add: placeholder_def)
      from fill_step_match[OF this, of e "render ps"] show ?thesis
        by (simp add: Hole True render_Cons fillPieces_Cons render_append render_Text IH)
    next
      case False
      from fill_other_hole[OF assms(1) key False, of e "render ps"] show ?thesis
        by (simp add: Hole False render_Cons fillPieces_Cons IH)
    qed
  qed
qed

lemma sublist_placeholder_render:
  assumes "braceFree k" "list_all wellFormed ps" "sublist (placeholder k) (render ps)"
  shows "Hole k \<in> set ps"
  using assms(2,3)
proof (induction ps)
  case Nil
  then show ?case by (simp add: render_def placeholder_def)
next
  case (Cons p ps)
  show ?case
  proof (cases p)
    case (Text c)
    with Cons.prems have "\<not> prefix (placeholder k) (c # render ps)"
      by (auto simp: placeholder_def)
    with Cons.prems(2) have "sublist (placeholder k) (render ps)"
      by (simp add: Text render_Cons sublist_Cons_right)
    with Cons show ?thesis by simp
  next
    case (Hole key)
    with Cons.prems have key: "braceFree key" by simp
    show ?thesis
    proof (cases "key = k")
      case True
      then show ?thesis by (simp add: Hole)
    next
      case False
      let ?P = "placeholder k"
      have 0: "\<not> prefix ?P (CHR ''{'' # CHR ''{'' # key @ ''}}'' @ render ps)"
        using prefix_placeholder_iff[OF assms(1) key, of "render ps"] False
        by (simp add: placeholder_def)
      have 1: "\<not> prefix ?P (CHR ''{'' # key @ ''}}'' @ render ps)"
        by (rule no_prefix_inside_placeholder[OF key])
      have 2: "sublist ?P (x @ s) \<Longrightarrow> CHR ''{'' \<notin> set x \<Longrightarrow> sublist ?P s" for x s
      proof (induction x)
        case Nil
        then show ?case by simp
      next
        case (Cons c x)
        then have "\<not> prefix ?P (c # x @ s)" by (auto simp: placeholder_def)
        with Cons show ?case by (simp add: sublist_Cons_right)
      qed
      from Cons.prems(2) have "sublist ?P (CHR ''{'' # CHR ''{'' # (key @ ''}}'') @ render ps)"
        by (simp add: Hole render_Cons placeholder_def)
      with 0 1 have "sublist ?P ((key @ ''}}'') @ render ps)"
        by (simp add: sublist_Cons_right)
      then have "sublist ?P (render ps)"
        by (rule 2) (use key in \<open>simp add: braceFree_def\<close>)
      with Cons show ?thesis by simp
    qed
  qed
qed


lemma set_replaceChar: "set (replaceChar c r s) \<subseteq> set s \<union> set r"
  by (induction s) (auto simp: replaceChar_def)

lemma braceFree_replaceChar:
  "braceFree r \<Longrightarrow> braceFree s \<Longrightarrow> braceFree (replaceChar c r s)"
  using set_replaceChar[of c r s] by (auto simp: braceFree_def)

lemma braceFree_escapeXmlText: "braceFree s \<Longrightarrow> braceFree (escapeXmlText s)"
  unfolding escapeXmlText_def
  by (intro braceFree_replaceChar) (simp_all add: braceFree_def)

lemma wellFormed_fillPieces:
  "braceFree e \<Longrightarrow> list_all wellFormed ps \<Longrightarrow> list_all wellFormed (fillPieces k e ps)"
proof (induction ps)
  case Nil
  show ?case by (simp add: fillPieces_def)
next
  case (Cons p ps)
  then show ?case
    by (cases p) (auto simp: fillPieces_Cons list_all_iff braceFree_def)
qed

lemma Hole_fillPieces: "Hole k \<in> set (fillPieces k' e ps) \<longleftrightarrow> Hole k \<in> set ps \<and> k \<noteq> k'"
proof (induction ps)
  case Nil
  show ?case by (simp add: fillPieces_def)
next
  case (Cons p ps)
  then show ?case by (cases p) (auto simp: fillPieces_Cons)
qed

lemma fillPieces_append: "fillPieces k e (ps @ qs) = fillPieces k e ps @ fillPieces k e qs"
  by (simp add: fillPieces_def)

lemma fillPieces_Text: "fillPieces k e (map Text w) = map Text w"
  by (induction w) (simp_all add: fillPieces_def)

lemma Text_run_kept:
  assumes "sublist (map Text w) ps"
  shows "sublist (map Text w) (fillPieces k e ps)"
proof -
  from assms obtain a b where "ps = a @ map Text w @ b" by (auto simp: sublist_def)
  then show ?thesis by (simp add: fillPieces_append fillPieces_Text)
qed

lemma Text_run_made:
  assumes "Hole k \<in> set ps"
  shows "sublist (map Text e) (fillPieces k e ps)"
proof -
  from assms obtain a b where "ps = a @ Hole k # b" by (auto dest: split_list)
  then have "fillPieces k e ps = fillPieces k e a @ map Text e @ fillPieces k e b"
    by (simp add: fillPieces_append fillPieces_Cons)
  then show ?thesis by simp
qed

lemma sublist_render:
  assumes "sublist ps qs"
  shows "sublist (render ps) (render qs)"
proof -
  from assms obtain a b where "qs = a @ ps @ b" by (auto simp: sublist_def)
  then show ?thesis by (simp add: render_append)
qed

lemma fillPieces_no_Hole: "Hole k \<notin> set ps \<Longrightarrow> fillPieces k e ps = ps"
proof (induction ps)
  case Nil
  show ?case by (simp add: fillPieces_def)
next
  case (Cons p ps)
  then show ?case by (cases p) (auto simp: fillPieces_Cons)
qed

lemma fillAll_Cons: "fillAll ((k, v) # payload) ps = fillAll payload (fillPieces k (escapeXmlText v) ps)"
  by (simp add: fillAll_def)

lemma fillPlaceholder_render:
  assumes "braceFree k" "list_all wellFormed ps"
  shows "fillPlaceholder k v (render ps) = render (fillPieces k (escapeXmlText v) ps)"
proof (cases "sublist (placeholder k) (render ps)")
  case True
  then show ?thesis by (simp add: fillPlaceholder_def fill_render[OF assms])
next
  case False
  have "Hole k \<notin> set ps"
  proof
    assume "Hole k \<in> set ps"
    then have "sublist [Hole k] ps" by (auto simp: sublist_def dest: split_list)
    from sublist_render[OF this] False show False by (simp add: render_def)
  qed
  with False show ?thesis by (simp add: fillPlaceholder_def fillPieces_no_Hole)
qed

lemma fillRemaining_render:
  assumes "\<forall>(k, v) \<in> set payload. braceFree k \<and> braceFree v" "list_all wellFormed ps"
  shows "fillRemaining payload (render ps) = render (fillAll payload ps) \<and>
         list_all wellFormed (fillAll payload ps)"
  using assms
proof (induction payload arbitrary: ps)
  case Nil
  then show ?case by (simp add: fillRemaining_def fillAll_def)
next
  case (Cons kv payload)
  obtain k v where kv: "kv = (k, v)" by (cases kv)
  from Cons.prems(1) have k: "braceFree k" and v: "braceFree v"
    and rest: "\<forall>(k, v) \<in> set payload. braceFree k \<and> braceFree v"
    by (auto simp: kv)
  let ?ps = "fillPieces k (escapeXmlText v) ps"
  have wf: "list_all wellFormed ?ps"
    by (rule wellFormed_fillPieces[OF braceFree_escapeXmlText[OF v] Cons.prems(2)])
  have "fillRemaining (kv # payload) (render ps) = fillRemaining payload (render ?ps)"
    by (simp add: fillRemaining_def kv fillPlaceholder_render[OF k Cons.prems(2)])
  with Cons.IH[OF rest wf] show ?case by (simp add: kv fillAll_Cons)
qed

lemma Hole_fillAll:
  "Hole k \<in> set (fillAll payload ps) \<longleftrightarrow> Hole k \<in> set ps \<and> k \<notin> fst ` set payload"
proof (induction payload arbitrary: ps)
  case Nil
  show ?case by (simp add: fillAll_def)
next
  case (Cons kv payload)
  then show ?case by (cases kv) (auto simp: fillAll_Cons Hole_fillPieces)
qed

lemma Text_run_kept_all:
  "sublist (map Text w) ps \<Longrightarrow> sublist (map Text w) (fillAll payload ps)"
proof (induction payload arbitrary: ps)
  case Nil
  then show ?case by (simp add: fillAll_def)
next
  case (Cons kv payload)
  then show ?case by (cases kv) (simp add: fillAll_Cons Text_run_kept)
qed

lemma value_in_fillAll:
  "map_of payload k = Some v \<Longrightarrow> Hole k \<in> set ps \<Longrightarrow>
   sublist (map Text (escapeXmlText v)) (fillAll payload ps)"
proof (induction payload arbitrary: ps)
  case Nil
  then show ?case by simp
next
  case (Cons kv payload)
  obtain k' v' where kv: "kv = (k', v')" by (cases kv)
  show ?case
  proof (cases "k' = k")
    case True
    with Cons.prems(1) have "v' = v" by (simp add: kv)
    with True Cons.prems(2) show ?thesis
      by (simp add: kv fillAll_Cons Text_run_kept_all Text_run_made)
  next
    case False
    with Cons.prems have "map_of payload k = Some v"
      and "Hole k \<in> set (fillPieces k' (escapeXmlText v') ps)"
      by (simp_all add: kv Hole_fillPieces)
    from Cons.IH[OF this] show ?thesis by (simp add: kv fillAll_Cons)
  qed
qed

lemma fillRemaining_fills:
  assumes "\<forall>(k, v) \<in> set payload. braceFree k \<and> braceFree v" "list_all wellFormed ps"
  shows "(\<forall>k \<in> fst ` set payload. \<not> sublist (placeholder k) (fillRemaining payload (render ps))) \<and>
         (\<forall>k v. map_of payload k = Some v \<and> Hole k \<in> set ps \<longrightarrow>
            sublist (escapeXmlText v) (fillRemaining payload (render ps)))"
proof (intro conjI ballI allI impI)
  note R = fillRemaining_render[OF assms]
  fix k assume k: "k \<in> fst ` set payload"
  with assms(1) have bk: "braceFree k" by auto
  show "\<not> sublist (placeholder k) (fillRemaining payload (render ps))"
  proof
    assume "sublist (placeholder k) (fillRemaining payload (render ps))"
    with R have "Hole k \<in> set (fillAll payload ps)"
      by (auto intro: sublist_placeholder_render[OF bk])
    with k show False by (simp add: Hole_fillAll)
  qed
next
  note R = fillRemaining_render[OF assms]
  fix k v assume "map_of payload k = Some v \<and> Hole k \<in> set ps"
  then have "sublist (map Text (escapeXmlText v)) (fillAll payload ps)"
    by (auto intro: value_in_fillAll)
  from sublist_render[OF this] R
  show "sublist (escapeXmlText v) (fillRemaining payload (render ps))"
    by (simp add: render_Text)
qed

lemma braceFree_payloadKeys: "list_all braceFree payloadKeys"
  by code_simp

text \<open>
  C3 (as amended).  Take a payload of \<open>buildTemplatePayload\<close> whose values hold no brace, and
  let the text that \<open>patchDocument\<close> returns be well formed: its braces are those of
  placeholders \<open>{{key}}\<close> with brace-free keys.  Then the text \<open>populateTemplate\<close> returns
  holds no \<open>{{key}}\<close> for any key of the payload, and for every key whose placeholder was in
  the patched text it holds the XML-escaped value of that key.
\<close>

theorem populateTemplate_fills:
  assumes "patchDocument templateBuffer
             (map (\<lambda>(key, value). (key, escapeXmlText value)) (buildTemplatePayload parsed optimized))
           = Some (render ps)"
    and "list_all wellFormed ps"
    and "\<forall>(k, v) \<in> set (buildTemplatePayload parsed optimized). braceFree v"
  shows "populateTemplate patchDocument templateBuffer (buildTemplatePayload parsed optimized)
           = Some (fillRemaining (buildTemplatePayload parsed optimized) (render ps)) \<and>
         (\<forall>k \<in> set payloadKeys.
            \<not> sublist (placeholder k)
                (fillRemaining (buildTemplatePayload parsed optimized) (render ps))) \<and>
         (\<forall>k v. map_of (buildTemplatePayload parsed optimized) k = Some v \<and> Hole k \<in> set ps \<longrightarrow>
            sublist (escapeXmlText v)
              (fillRemaining (buildTemplatePayload parsed optimized) (render ps)))"
proof -
  let ?P = "buildTemplatePayload parsed optimized"
  have keys: "fst ` set ?P = set payloadKeys"
    using keys_payload[of parsed optimized] by (metis set_map)
  have "\<forall>(k, v) \<in> set ?P. braceFree k"
    using keys braceFree_payloadKeys by (force simp: list_all_iff)
  with assms(3) have bf: "\<forall>(k, v) \<in> set ?P. braceFree k \<and> braceFree v" by auto
  from fillRemaining_fills[OF bf assms(2)] keys assms(1) show ?thesis
    by (simp add: populateTemplate_def Let_def)
qed


lemma payload_resume0_braceFree:
  "list_all (\<lambda>(k, v). braceFree v) (buildTemplatePayload resume0 None)"
  by code_simp

lemma fill_template0:
  "fillRemaining (buildTemplatePayload resume0 None) (render template0) = ''<w:t>Ann Lee</w:t>''"
  by code_simp

theorem populateTemplate_fills_witness:
  "populateTemplate patchNothing (Some ''<w:t>{{contact.name}}</w:t>'')
     (buildTemplatePayload resume0 None) = Some ''<w:t>Ann Lee</w:t>'' \<and>
   \<not> sublist ''{{contact.name}}'' ''<w:t>Ann Lee</w:t>'' \<and>
   sublist ''Ann Lee'' ''<w:t>Ann Lee</w:t>''"
proof -
  let ?P = "buildTemplatePayload resume0 None"
  have r: "render template0 = ''<w:t>{{contact.name}}</w:t>''"
    by (simp add: template0_def render_def placeholder_def)
  have h1: "patchNothing (Some ''<w:t>{{contact.name}}</w:t>'')
              (map (\<lambda>(key, value). (key, escapeXmlText value)) ?P) = Some (render template0)"
    by (simp add: patchNothing_def r)
  have h2: "list_all wellFormed template0"
    by (simp add: template0_def braceFree_def)
  have h3: "\<forall>(k, v) \<in> set ?P. braceFree v"
    using payload_resume0_braceFree by (simp add: list_all_iff)
  note T = populateTemplate_fills[where patchDocument = patchNothing, OF h1 h2 h3,
      unfolded fill_template0]
  have k: "''contact.name'' \<in> set payloadKeys" "Hole ''contact.name'' \<in> set template0"
    "placeholder ''contact.name'' = ''{{contact.name}}''" "escapeXmlText ''Ann Lee'' = ''Ann Lee''"
    by (simp_all add: payloadKeys_def template0_def placeholder_def escapeXmlText_def replaceChar_def)
  have m: "map_of ?P ''contact.name'' = Some ''Ann Lee''"
    by (rule lookup_payload, rule head_in_payload)
      (simp add: payloadHead_def payloadContact_def opt_def resume0_def Let_def)
  from T k m show ?thesis by metis
qed

text \<open>
  The claim as stated fails on the literal value: a value with an ampersand is written
  escaped, and the literal value is not in the output.
\<close>

theorem populateTemplate_literal_counterexample:
  "map_of (buildTemplatePayload resumeAmp None) ''experience.0.company'' = Some ''AT&T'' \<and>
   populateTemplate patchNothing (Some ''<w:t>{{experience.0.company}}</w:t>'')
     (buildTemplatePayload resumeAmp None) = Some ''<w:t>AT&amp;T</w:t>'' \<and>
   \<not> sublist ''AT&T'' ''<w:t>AT&amp;T</w:t>''"
proof -
  have 1: "map_of (buildTemplatePayload resumeAmp None) ''experience.0.company'' = Some ''AT&T''"
    by code_simp
  have 2: "populateTemplate patchNothing (Some ''<w:t>{{experience.0.company}}</w:t>'')
     (buildTemplatePayload resumeAmp None) = Some ''<w:t>AT&amp;T</w:t>''"
    by code_simp
  have 3: "\<not> sublist ''AT&T'' ''<w:t>AT&amp;T</w:t>''"
    by code_simp
  from 1 2 3 show ?thesis by simp
qed

section \<open>Evaluating regular expressions\<close>

text \<open>
  Rules for running the matcher on a given text with the simplifier: the expression and the
  continuation of a call are left as they are, only the cursor is evaluated.
\<close>

lemma mt_cursor_cong: "cur = cur' \<Longrightarrow> cp = cp' \<Longrightarrow> mt r cur cp k = mt r cur' cp' k"
  by simp

lemma matchAt_cursor_cong: "cur = cur' \<Longrightarrow> matchAt r cur = matchAt r cur'"
  by simp

lemma searchFrom_cursor_cong:
  "pre = pre' \<Longrightarrow> s = s' \<Longrightarrow> searchFrom r pre s = searchFrom r pre' s'"
  by simp

lemma splitRxFrom_cursor_cong:
  "piece = piece' \<Longrightarrow> pre = pre' \<Longrightarrow> s = s' \<Longrightarrow>
   splitRxFrom r piece pre s = splitRxFrom r piece' pre' s'"
  by simp

lemmas rx_cong = mt_cursor_cong matchAt_cursor_cong searchFrom_cursor_cong splitRxFrom_cursor_cong

lemmas rx_build = chr_def chrI_def str_def strI_def star_def plus_def opt'_def
  dot_def wordC_def spaceC_def digitC_def seqs.simps alts.simps list.map
  abbrev_def wordOrSpace_def alphaC_def alphaOrSpace_def dashC_def newlineC_def

lemmas char_eval = isWord_def isAlpha_def isUpper_def isDigit_def isSpace_def code_def
  lowerCode_def wordCode_def alphaCode_def upperCode_def digitCode_def spaceCode_def inRange_def

lemmas rx_eval = mt.simps matchAt_def searchFrom.simps rxMatch0_def rxMatch1_def rxTest_def
  between_def rxReplaceFirst_def splitRxFrom.simps rxSplit_def atBol_def atEol_def atWordB_def
  isLineTerminator_def char_eval

section \<open>Education entries\<close>

lemma educationOfBlocks:
  "concat (map educationOfBlock blocks)
     = map educationEntry (filter (\<lambda>t. t \<noteq> []) (map trim blocks))"
  by (induction blocks) (simp_all add: educationOfBlock_def Let_def)

lemma rawText_educationEntry: "ed_rawText (educationEntry t) = Some t"
  by (simp add: educationEntry_def Let_def)

lemma parseEducationBlock_entries:
  "parseEducationBlock text =
     (if filter (\<lambda>t. t \<noteq> []) (map trim (rxSplit educationStart text)) = [] \<and> trim text \<noteq> []
      then [rawTextOnly (trim text)]
      else map educationEntry (filter (\<lambda>t. t \<noteq> []) (map trim (rxSplit educationStart text))))"
  by (simp add: parseEducationBlock_def Let_def educationOfBlocks)

text \<open>
  C9.  The entries of \<open>parseEducationBlock\<close> are those of the blocks of the split whose
  trimmed text is not empty, in order, and the \<open>rawText\<close> of each is that whole trimmed text,
  whatever the entry holds as school, degree, dates or gpa; the one entry of the fallback
  holds the trimmed section text.
\<close>

theorem parseEducationBlock_rawText:
  "map ed_rawText (parseEducationBlock text) =
     (if filter (\<lambda>t. t \<noteq> []) (map trim (rxSplit educationStart text)) = [] \<and> trim text \<noteq> []
      then [Some (trim text)]
      else map Some (filter (\<lambda>t. t \<noteq> []) (map trim (rxSplit educationStart text))))"
  by (simp add: parseEducationBlock_entries rawTextOnly_def rawText_educationEntry comp_def)

lemma education_MIT:
  "rxSplit educationStart ''MIT'' = [''MIT'']"
  "rxMatch1 educationDates ''MIT'' = None"
  "rxMatch1 educationGpa ''MIT'' = None"
  "rxMatch0 educationDegree ''MIT'' = None"
  "rxMatch0 educationSchool ''MIT'' = None"
  "rxTest DATE_RANGE_REGEX ''MIT'' = False"
  "rxTest startsWithGpa ''MIT'' = False"
  "rxReplaceFirst gpaTail [] ''MIT'' = ''MIT''"
  unfolding educationStart_def educationDates_def educationGpa_def educationDegree_def
    educationSchool_def DATE_RANGE_REGEX_def startsWithGpa_def gpaTail_def rx_build
  by (simp_all add: rx_eval cong: rx_cong)

lemma trim_MIT: "trim ''MIT'' = ''MIT''"
  by (simp add: trim_def char_eval)

lemma parse_MIT:
  "parseEducationBlock ''MIT'' =
     [\<lparr> ed_school = Some ''MIT'', ed_degree = None, ed_dates = None, ed_gpa = None,
        ed_rawText = Some ''MIT'' \<rparr>]"
  by (simp add: parseEducationBlock_def educationOfBlock_def educationEntry_def firstLineOf_def
      orUndefined_def truthy_def at_def Let_def education_MIT trim_MIT)

theorem parseEducationBlock_rawText_witness:
  "map ed_school (parseEducationBlock ''MIT'') = [Some ''MIT''] \<and>
   map ed_rawText (parseEducationBlock ''MIT'') = [Some ''MIT'']"
  using parseEducationBlock_rawText[of "''MIT''"]
  by (simp add: parse_MIT)










section \<open>Experience entries\<close>

text \<open>
  \<open>parseExperienceBlock\<close> on \<open>experienceText0\<close>, step by step: the normalisation and the two
  splits leave the text as one block of three lines.
\<close>

lemma acme_nonempty: "experienceText0 \<noteq> []"
  by (simp add: experienceText0_def)

lemma acme_content:
  "sectionContent [''Acme'', ''Engineer'', ''- Built it''] = experienceText0"
  by (simp add: sectionContent_def experienceText0_def trim_def char_eval)

lemma acme_normalize: "normalizeNewlines experienceText0 = experienceText0"
  by (simp add: normalizeNewlines_def experienceText0_def)

lemma acme_split:
  "rxSplit EXPERIENCE_JOB_SPLIT_TAB_DATE experienceText0 = [experienceText0]"
  "rxSplit EXPERIENCE_JOB_SPLIT experienceText0 = [experienceText0]"
  unfolding EXPERIENCE_JOB_SPLIT_TAB_DATE_def EXPERIENCE_JOB_SPLIT_def notNewline_def rx_build
  by (simp_all add: experienceText0_def rx_eval cong: rx_cong)

lemma acme_trim:
  "trim experienceText0 = experienceText0"
  "trim ''Acme'' = ''Acme''" "trim ''Engineer'' = ''Engineer''" "trim ''- Built it'' = ''- Built it''"
  "trim ''Built it'' = ''Built it''"
  by (simp_all add: trim_def experienceText0_def char_eval)

lemma acme_lines: "linesOf experienceText0 = [''Acme'', ''Engineer'', ''- Built it'']"
  by (simp add: linesOf_def experienceText0_def acme_trim)

lemma acme_pipes:
  "hasPipe ''Acme'' = False" "hasPipe ''Engineer'' = False" "hasPipe ''- Built it'' = False"
  by (simp_all add: hasPipe_def)

lemma acme_tab: "splitOn (CHR 0x09) ''Acme'' = [''Acme'']"
  by simp

text \<open>The first line is no heading, and no line holds a date range or a location.\<close>

lemma acme_first: "rxTest capitalsOnly ''Acme'' = False"
  unfolding capitalsOnly_def rx_build by (simp add: rx_eval cong: rx_cong)

lemma acme_dates:
  "rxMatch1 EXPERIENCE_DATE_REGEX ''Engineer'' = None"
  "rxMatch1 EXPERIENCE_DATE_REGEX ''- Built it'' = None"
  "rxMatch1 EXPERIENCE_DATE_REGEX experienceText0 = None"
  unfolding EXPERIENCE_DATE_REGEX_def rx_build
  by (simp_all add: experienceText0_def rx_eval cong: rx_cong)

lemma acme_pipeTail:
  "rxReplaceFirst pipeTail [] ''Engineer'' = ''Engineer''"
  "rxReplaceFirst pipeTail [] ''- Built it'' = ''- Built it''"
  unfolding pipeTail_def rx_build by (simp_all add: rx_eval cong: rx_cong)

lemma acme_city:
  "rxTest cityState ''Engineer'' = False" "rxTest cityAny ''Engineer'' = False"
  "rxTest cityState ''- Built it'' = False" "rxTest cityAny ''- Built it'' = False"
  unfolding cityState_def cityAny_def stateNames_def rx_build
  by (simp_all add: rx_eval cong: rx_cong)

lemma acme_location:
  "looksLikeLocation ''Engineer'' = False" "looksLikeLocation ''- Built it'' = False"
  by (simp_all add: looksLikeLocation_def acme_pipeTail acme_trim acme_city)

lemma acme_cityLine:
  "rxTest cityLine ''Engineer'' = True" "rxTest cityLine ''- Built it'' = False"
  unfolding cityLine_def rx_build by (simp_all add: rx_eval cong: rx_cong)

lemma acme_state:
  "rxTest stateCode ''- Built it'' = False" "rxTest stateName ''- Built it'' = False"
  unfolding stateCode_def stateName_def rx_build by (simp_all add: rx_eval cong: rx_cong)

lemma acme_cityThenState:
  "cityThenState [''Acme'', ''Engineer'', ''- Built it''] (Suc 0) (Suc (Suc 0)) = None"
  by (simp add: at_def acme_trim char_eval acme_cityLine acme_state Let_def)

lemma acme_locationInBlock: "rxMatch1 locationInBlock (take 400 experienceText0) = None"
  unfolding locationInBlock_def stateNames_def rx_build
  by (simp add: experienceText0_def rx_eval cong: rx_cong)

text \<open>The loop over the header lines takes the role from the second line.\<close>

lemma acme_role:
  "rxTest ROLE_KEYWORDS ''Engineer'' = True" "rxTest ROLE_KEYWORDS ''- Built it'' = False"
  unfolding ROLE_KEYWORDS_def rx_build by (simp_all add: rx_eval cong: rx_cong)

lemma acme_header:
  "headerLine ''- Built it''
     (headerLine ''Engineer''
        \<lparr> h_role = None, h_location = None, h_dates = None, h_subheader = None \<rparr>)
   = \<lparr> h_role = Some ''Engineer'', h_location = None, h_dates = None, h_subheader = None \<rparr>"
  by (simp add: headerLine_def acme_dates acme_pipes acme_location acme_role truthy_def)

text \<open>
  \<open>stripExperienceHeaderLines\<close> drops the first line only: the second line has no \<open>|\<close>, so
  \<open>skipCount\<close> stays 1 and the role line goes on to \<open>extractBullets\<close>.
\<close>

lemma acme_strip:
  "stripExperienceHeaderLines experienceText0 ''Acme''
     = ''Engineer'' @ [CHR 0x0A] @ ''- Built it''"
  by (simp add: stripExperienceHeaderLines_def acme_lines at_def acme_trim acme_pipes Let_def)

lemma acme_bulletStart:
  "rxReplaceFirst bulletStart [] ''Engineer'' = ''Engineer''"
  "rxReplaceFirst bulletStart [] ''- Built it'' = ''Built it''"
  unfolding bulletStart_def rx_build by (simp_all add: rx_eval cong: rx_cong)

lemma acme_bullets:
  "extractBullets (''Engineer'' @ [CHR 0x0A] @ ''- Built it'') = [''Engineer'', ''Built it'']"
  by (simp add: extractBullets_def linesOf_def acme_trim acme_bulletStart Let_def)

lemmas acme_facts = acme_lines at_def acme_first acme_trim acme_pipes truthy_def
  shorterThan50_def acme_header acme_cityThenState acme_dates acme_locationInBlock acme_strip
  acme_bullets[simplified] orUndefined_def acme_tab

lemma acme_block:
  "experienceOfBlock experienceText0 =
     [ \<lparr> ex_company = Some ''Acme'', ex_role = Some ''Engineer'', ex_location = None,
         ex_dates = None, ex_subheader = None, ex_bullets = [''Engineer'', ''Built it''] \<rparr> ]"
  unfolding experienceOfBlock_def Let_def
  by (simp add: acme_facts del: cityThenState.simps)

text \<open>
  C7.  The header line that gives an entry its role is not always taken out of the block
  before the bullets are read.  \<open>stripExperienceHeaderLines\<close> drops the first line, and the
  second line only when it holds a \<open>|\<close>; the loop over the header lines of
  \<open>parseExperienceBlock\<close> also takes a role from a line without \<open>|\<close> that holds one of the
  \<open>ROLE_KEYWORDS\<close>.  On \<open>experienceText0\<close> the one entry has company \<open>Acme\<close> and role
  \<open>Engineer\<close>, and the line \<open>Engineer\<close> is the first of its bullets: the text handed to
  \<open>extractBullets\<close> still starts with that line.  The text is the content of a section with
  these three lines, as the section loop passes it.
\<close>

theorem parseExperienceBlock_role_among_bullets:
  "sectionContent [''Acme'', ''Engineer'', ''- Built it''] = experienceText0 \<and>
   parseExperienceBlock experienceText0 =
     [ \<lparr> ex_company = Some ''Acme'', ex_role = Some ''Engineer'', ex_location = None,
         ex_dates = None, ex_subheader = None, ex_bullets = [''Engineer'', ''Built it''] \<rparr> ] \<and>
   stripExperienceHeaderLines experienceText0 ''Acme'' = ''Engineer'' @ [CHR 0x0A] @ ''- Built it'' \<and>
   ex_role (hd (parseExperienceBlock experienceText0)) = Some ''Engineer'' \<and>
   ''Engineer'' \<in> set (ex_bullets (hd (parseExperienceBlock experienceText0)))"
  by (simp add: parseExperienceBlock_def acme_normalize acme_split notBlank_def acme_trim
      acme_block acme_strip acme_nonempty acme_content Let_def)

end
